theory Spec2Isabelle
  imports Complex_Main
begin

section \<open>Values and records of the listing pipeline\<close>

text \<open>
  The program is JavaScript. A property of an upstream item or of a parsed model response
  holds a primitive value; \<open>a || b\<close> returns \<open>a\<close> when it is truthy and \<open>b\<close>
  otherwise. Numbers are the integers (JSON numerals without fraction).
\<close>

datatype jsval = JUndef | JNull | JBool bool | JNum int | JStr string

fun truthy :: "jsval \<Rightarrow> bool" where
  "truthy JUndef = False"
| "truthy JNull = False"
| "truthy (JBool b) = b"
| "truthy (JNum n) = (n \<noteq> 0)"
| "truthy (JStr s) = (s \<noteq> [])"

definition js_or :: "jsval \<Rightarrow> jsval \<Rightarrow> jsval" where
  "js_or a b = (if truthy a then a else b)"

definition str_or :: "string \<Rightarrow> string \<Rightarrow> string" where
  "str_or s d = (if s = [] then d else s)"

text \<open>
  An object is its list of properties; reading a property that is not there gives
  \<open>undefined\<close>. An element of an item array is an object or \<open>null\<close>
  (\<open>None\<close>): reading a property of \<open>null\<close> throws a TypeError.
\<close>

type_synonym item = "(string \<times> jsval) list"

type_synonym raw_item = "item option"

definition field :: "item \<Rightarrow> string \<Rightarrow> jsval" where
  "field it k = (case map_of it k of None \<Rightarrow> JUndef | Some v \<Rightarrow> v)"

record details =
  bedrooms :: jsval
  bathrooms :: jsval
  squareFeet :: jsval

record listing =
  title :: jsval
  price :: jsval
  address :: jsval
  details :: details
  description :: jsval
  url :: jsval
  source :: string
  imageUrl :: "jsval option"
  listingAgent :: "jsval option"
  listingStatus :: "jsval option"

text \<open>
  The result object \<open>{count, listings, note?, error?}\<close>. Every tier returns it through
  \<open>JSON.stringify\<close> and the scheduler reads it back with \<open>JSON.parse\<close>; the model
  keeps the object itself.
\<close>

record extraction_result =
  count :: nat
  listings :: "listing list"
  note_field :: "string option"
  error :: "string option"

record criteria =
  location :: string
  minPrice :: "int option"
  maxPrice :: "int option"
  propertyType :: string
  crit_bedrooms :: "int option"
  crit_bathrooms :: "int option"
  maxResults :: nat
  crit_source :: string
  forceFallback :: bool

section \<open>Monitor engine (scheduler)\<close>

text \<open>
  Times are milliseconds since the epoch, as \<open>Date\<close> subtraction gives them.
  \<open>lastChecked\<close> is \<open>null\<close> (\<open>None\<close>) or the time its ISO string denotes; the
  engine only ever stores \<open>now.toISOString()\<close> there. \<open>frequency\<close> is a string or
  missing.
\<close>

record monitorConfig =
  monitorId :: string
  createdAt :: int
  mon_location :: string
  mon_minPrice :: "int option"
  mon_maxPrice :: "int option"
  mon_propertyType :: string
  mon_bedrooms :: "int option"
  mon_bathrooms :: "int option"
  frequency :: "string option"
  notificationEmail :: "string option"
  lastChecked :: "int option"
  lastResults :: "extraction_result option"
  nextRun :: "int option"

text \<open>
  The quotient is taken in the rationals. The code divides two integers in floating
  point and compares with 0.25, 24 and 168; near these values the rounded quotient is on
  the same side of the threshold as the exact one.
\<close>

definition hoursSinceLastCheck :: "int \<Rightarrow> int \<Rightarrow> rat" where
  "hoursSinceLastCheck currentTime lastT = of_int (currentTime - lastT) / (1000 * 60 * 60)"

definition shouldRunMonitor :: "monitorConfig \<Rightarrow> int \<Rightarrow> bool" where
  "shouldRunMonitor monitorConfig currentTime =
     (case lastChecked monitorConfig of
        None \<Rightarrow> True
      | Some lastT \<Rightarrow>
          (let h = hoursSinceLastCheck currentTime lastT in
           if frequency monitorConfig = Some ''realtime'' then h \<ge> 1 / 4
           else if frequency monitorConfig = Some ''daily'' then h \<ge> 24
           else if frequency monitorConfig = Some ''weekly'' then h \<ge> 168
           else h \<ge> 24))"

text \<open>
  What the scheduler takes from the machine and the Apify SDK it runs on. The time zone
  is ECMAScript's \<open>LocalTZA\<close>: \<open>offsetOfUtc t\<close> is the offset of local time at the instant
  \<open>t\<close>, \<open>offsetOfLocal lt\<close> the offset by which the local time value \<open>lt\<close> is read back
  (on a host with daylight saving the two change over the year). \<open>initError\<close> is the
  error of \<open>Actor.init()\<close> when it throws; \<open>openError\<close> the error of opening the store or
  of reading its \<open>monitors-list\<close>; \<open>getFails\<close> and \<open>setFails\<close> tell for which monitor ids
  \<open>store.getValue\<close> and \<open>store.setValue\<close> throw. \<open>exitEndsProcess\<close> tells whether
  \<open>Actor.exit()\<close> ends the process, which is what the SDK does unless it is told or
  stubbed otherwise.
\<close>

record host =
  offsetOfUtc :: "int \<Rightarrow> int"
  offsetOfLocal :: "int \<Rightarrow> int"
  initError :: "string option"
  openError :: "string option"
  getFails :: "string \<Rightarrow> bool"
  setFails :: "string \<Rightarrow> bool"
  exitEndsProcess :: bool

text \<open>\<open>LocalTime(t)\<close> and \<open>UTC(t)\<close> of the language definition.\<close>

definition localTime :: "host \<Rightarrow> int \<Rightarrow> int" where
  "localTime h t = t + offsetOfUtc h t"

definition utcTime :: "host \<Rightarrow> int \<Rightarrow> int" where
  "utcTime h lt = lt - offsetOfLocal h lt"

text \<open>
  \<open>getNextRunTime\<close> reads the clock itself (\<open>new Date()\<close>); the reading is the
  argument \<open>clock\<close>. \<open>setMinutes(getMinutes() + 15)\<close> and \<open>setDate(getDate() + n)\<close> take
  the fields of the local time, move the local time value by 15 minutes or by \<open>n\<close> days
  and read the result back as an instant, which \<open>toISOString\<close> prints.
\<close>

definition getNextRunTime :: "host \<Rightarrow> string option \<Rightarrow> int \<Rightarrow> int" where
  "getNextRunTime h freq clock =
     (if freq = Some ''realtime'' then utcTime h (localTime h clock + 15 * 60 * 1000)
      else if freq = Some ''daily'' then utcTime h (localTime h clock + 1 * 86400000)
      else if freq = Some ''weekly'' then utcTime h (localTime h clock + 7 * 86400000)
      else utcTime h (localTime h clock + 1 * 86400000))"

text \<open>
  \<open>findNewListings\<close>: \<open>previousListings\<close> may be absent (\<open>None\<close>). The set holds
  every \<open>url\<close> value of the previous listings, and \<open>Set.has\<close> compares primitives by
  value.
\<close>

definition findNewListings :: "listing list \<Rightarrow> listing list option \<Rightarrow> listing list" where
  "findNewListings currentListings previousListings =
     (case previousListings of
        None \<Rightarrow> currentListings
      | Some prev \<Rightarrow>
          if prev = [] then currentListings
          else (let existingUrls = set (map url prev)
                in filter (\<lambda>l. url l \<notin> existingUrls) currentListings))"

text \<open>
  The key-value store \<open>real-estate-monitors\<close>: the entry \<open>monitors-list\<close> and one
  entry per monitor id. \<open>getValue\<close> and \<open>setValue\<close> are reads and updates of the
  map, where they do not throw.
\<close>

record store =
  monitorsList :: "string list option"
  monitors :: "string \<rightharpoonup> monitorConfig"

record counters =
  processed :: nat
  updated :: nat

text \<open>
  The scheduler calls the search tool with the monitor's criteria, \<open>maxResults: 20\<close> and
  \<open>source: 'any'\<close>; the schema's default gives \<open>forceFallback = false\<close>.
\<close>

definition monitorCriteria :: "monitorConfig \<Rightarrow> criteria" where
  "monitorCriteria cfg =
     \<lparr>location = mon_location cfg, minPrice = mon_minPrice cfg, maxPrice = mon_maxPrice cfg,
      propertyType = mon_propertyType cfg, crit_bedrooms = mon_bedrooms cfg,
      crit_bathrooms = mon_bathrooms cfg, maxResults = 20, crit_source = ''any'',
      forceFallback = False\<rparr>"

text \<open>
  One turn of the loop of \<open>processAllMonitors\<close>. \<open>search\<close> is the tool invocation
  (\<open>Inl\<close>: it threw); \<open>clock mid\<close> is the clock reading of \<open>getNextRunTime\<close> in the turn
  of monitor \<open>mid\<close>. The state is the store's monitors with \<open>processedCount\<close> and
  \<open>updatedCount\<close>. Whatever throws in the turn is caught and logged by the \<open>catch\<close> of
  the loop body: a failing read, the search, and a failing write, which comes after the
  counters were raised.
\<close>

definition processMonitor ::
  "host \<Rightarrow> (criteria \<Rightarrow> string + extraction_result) \<Rightarrow> (string \<Rightarrow> int) \<Rightarrow> int \<Rightarrow>
   (string \<rightharpoonup> monitorConfig) \<times> nat \<times> nat \<Rightarrow> string \<Rightarrow> (string \<rightharpoonup> monitorConfig) \<times> nat \<times> nat" where
  "processMonitor h search clock now st mid =
     (case st of (ms, p, u) \<Rightarrow>
        if getFails h mid then (ms, p, u)
        else
        (case ms mid of
           None \<Rightarrow> (ms, p, u)
         | Some cfg \<Rightarrow>
             if \<not> shouldRunMonitor cfg now then (ms, p, u)
             else (case search (monitorCriteria cfg) of
                     Inl err \<Rightarrow> (ms, p, u)
                   | Inr res \<Rightarrow>
                       (let newListings = findNewListings (listings res)
                              (Some (case lastResults cfg of None \<Rightarrow> [] | Some prev \<Rightarrow> listings prev));
                            cfg' = cfg\<lparr>lastChecked := Some now, lastResults := Some res,
                                       nextRun := Some (getNextRunTime h (frequency cfg) (clock mid))\<rparr>
                        in (if setFails h mid then ms else ms(mid \<mapsto> cfg'),
                            Suc p, if newListings \<noteq> [] then Suc u else u)))))"

text \<open>The \<open>for\<close> loop over the monitors list, from both counters at 0.\<close>

definition monitorLoop ::
  "host \<Rightarrow> (criteria \<Rightarrow> string + extraction_result) \<Rightarrow> (string \<Rightarrow> int) \<Rightarrow> int \<Rightarrow>
   (string \<rightharpoonup> monitorConfig) \<Rightarrow> string list \<Rightarrow> (string \<rightharpoonup> monitorConfig) \<times> nat \<times> nat" where
  "monitorLoop h search clock now ms ids = foldl (processMonitor h search clock now) (ms, 0, 0) ids"

text \<open>
  How a call of \<open>processAllMonitors\<close> ends for its caller: it returns the counters, it
  throws, or the process is ended under it.
\<close>

datatype outcome = Returned counters | Thrown string | ProcessExited

text \<open>
  \<open>processAllMonitors\<close>. \<open>Actor.init()\<close> stands before the \<open>try\<close>. The \<open>try\<close> block
  returns the counters or throws (its \<open>catch\<close> throws the error again); the \<open>finally\<close>
  block then awaits \<open>Actor.exit()\<close>, and only when that call comes back does the caller
  get the value or the error. The store is given with the state the call leaves it in.
\<close>

definition processAllMonitors ::
  "host \<Rightarrow> (criteria \<Rightarrow> string + extraction_result) \<Rightarrow> (string \<Rightarrow> int) \<Rightarrow> store \<Rightarrow> int \<Rightarrow>
   store \<times> outcome" where
  "processAllMonitors h search clock st now =
     (case initError h of
        Some msg \<Rightarrow> (st, Thrown msg)
      | None \<Rightarrow>
          (case (case openError h of
                   Some msg \<Rightarrow> (st, Thrown msg)
                 | None \<Rightarrow>
                     (let ids = (case monitorsList st of None \<Rightarrow> [] | Some l \<Rightarrow> l) in
                      if ids = [] then (st, Returned \<lparr>processed = 0, updated = 0\<rparr>)
                      else (case monitorLoop h search clock now (monitors st) ids of
                              (ms, p, u) \<Rightarrow>
                                (st\<lparr>monitors := ms\<rparr>, Returned \<lparr>processed = p, updated = u\<rparr>)))) of
             (st', completion) \<Rightarrow>
               if exitEndsProcess h then (st', ProcessExited) else (st', completion)))"

section \<open>Extraction pipeline (realEstateTools.js)\<close>

subsection \<open>Collaborators\<close>

text \<open>
  The external calls are functions of their arguments; \<open>Inl msg\<close> is a thrown error with
  that message. The actor run and the page load are keyed by the criteria their request
  and URL are built from; the model is given the criteria and the first 12000 characters
  of the page text, the two holes of its prompt template. \<open>matchAll\<close> is the regular
  expression engine on the five patterns of \<open>processDocumentWithPatterns\<close> and gives, per
  match, the string the code keeps (\<open>match[0]\<close> or \<open>match[1]\<close>). \<open>httpGet\<close> is the
  request followed by the selection of the listing cards: of a card the code reads the
  trimmed text of its first link (empty when there is none), its whole text and the
  \<open>href\<close> of its first link (\<open>None\<close> when there is none). \<open>apifyToken\<close> tells whether
  \<open>process.env.APIFY_TOKEN\<close> is set, \<open>chargeOk\<close> whether the charge of an event goes
  through. Every call is recorded as an event.
\<close>

datatype pattern = PricePattern | AddressPattern | BedroomPattern | BathroomPattern | SqftPattern

datatype parsed = PArray "raw_item list" | PValue raw_item

record property_card =
  anchorText :: string
  cardText :: string
  href :: "string option"

datatype event = ActorCall string | Charge string | LoaderLoad | ModelInvoke | HttpGet

record env =
  apifyToken :: bool
  actorCall :: "string \<Rightarrow> criteria \<Rightarrow> string + raw_item list"
  chargeOk :: "string \<Rightarrow> bool"
  loaderLoad :: "criteria \<Rightarrow> string + string list"
  modelInvoke :: "criteria \<Rightarrow> string \<Rightarrow> string + string"
  jsonParse :: "string \<Rightarrow> parsed option"
  matchAll :: "pattern \<Rightarrow> string \<Rightarrow> string list"
  httpGet :: "string \<Rightarrow> string \<Rightarrow> string + property_card list"

text \<open>
  The shape of every \<open>catch\<close> branch that returns a result: no listing, the count 0
  and an error message. The \<open>catch\<close> of \<open>processDocumentWithPatterns\<close> builds it too,
  with the prefix \<open>Pattern matching extraction failed:\<close>; nothing in its \<open>try\<close> block
  throws when the content is a string.
\<close>

definition failureResult :: "string \<Rightarrow> extraction_result" where
  "failureResult msg = \<lparr>count = 0, listings = [], note_field = None, error = Some msg\<rparr>"

text \<open>\<open>Actor.charge\<close> calls in sequence; a failing charge throws and the enclosing
  \<open>catch\<close> only logs it, so the remaining charges of the block are skipped.\<close>

fun chargeAll :: "env \<Rightarrow> string list \<Rightarrow> event list" where
  "chargeAll e [] = []"
| "chargeAll e (n # ns) = Charge n # (if chargeOk e n then chargeAll e ns else [])"

definition volumeCharges :: "nat \<Rightarrow> string \<Rightarrow> string list" where
  "volumeCharges n src =
     (if n > 0
      then replicate ((n + 99) div 100) ''data-volume''
           @ (if src = ''redfin'' \<or> src = ''realtor'' then [''premium-source''] else [])
           @ replicate (min n 20) ''listing-found''
      else [])"

subsection \<open>Tier 1: specialized source\<close>

definition actorFor :: "string \<Rightarrow> string" where
  "actorFor src =
     (if src = ''zillow'' then ''maxcopell/zillow-scraper''
      else if src = ''redfin'' then ''dtrungtin/redfin-scraper''
      else if src = ''realtor'' then ''dtrungtin/realtor-scraper''
      else ''scrapestorm/zillow-search-scraper-all-in-one'')"

definition nullReadMessage :: "string \<Rightarrow> string" where
  "nullReadMessage p = ''Cannot read properties of null (reading '' @ [CHR 0x27] @ p @ [CHR 0x27] @ '')''"

definition mapItem :: "string \<Rightarrow> item \<Rightarrow> listing" where
  "mapItem src it =
     \<lparr>title = js_or (js_or (field it ''name'') (field it ''address'')) (JStr ''Property Listing''),
      price = js_or (js_or (field it ''price'') (field it ''listPrice'')) (JStr ''Price not specified''),
      address = js_or (js_or (field it ''address'') (field it ''streetAddress'')) (JStr ''Address not specified''),
      details = \<lparr>bedrooms = js_or (js_or (field it ''bedrooms'') (field it ''beds'')) (JStr ''Not specified''),
                 bathrooms = js_or (js_or (field it ''bathrooms'') (field it ''baths'')) (JStr ''Not specified''),
                 squareFeet = js_or (js_or (field it ''livingArea'') (field it ''sqft'')) (JStr ''Not specified'')\<rparr>,
      description = js_or (field it ''description'') (JStr []),
      url = js_or (js_or (field it ''detailUrl'') (field it ''url'')) (JStr []),
      source = src,
      imageUrl = Some (js_or (js_or (field it ''imgSrc'') (field it ''imageUrl'')) (JStr [])),
      listingAgent = Some (js_or (js_or (field it ''brokerName'') (field it ''agent'')) (JStr ''Not specified'')),
      listingStatus = Some (js_or (js_or (field it ''homeStatus'') (field it ''status'')) (JStr ''For Sale''))\<rparr>"

definition processRealEstateListings :: "raw_item list \<Rightarrow> string \<Rightarrow> extraction_result" where
  "processRealEstateListings items src =
     (case those items of
        None \<Rightarrow> failureResult (nullReadMessage ''name'')
      | Some its \<Rightarrow>
          (let ls = map (mapItem src) its
           in \<lparr>count = length ls, listings = ls, note_field = None, error = None\<rparr>))"

subsection \<open>Tier 3: model extraction\<close>

text \<open>
  The two regular expressions of \<open>processLLMResponse\<close>, on strings of ASCII characters.
  \<open>splitAtFirst pat s\<close> cuts \<open>s\<close> at the leftmost occurrence of \<open>pat\<close>.
\<close>

fun splitAtFirst :: "string \<Rightarrow> string \<Rightarrow> (string \<times> string) option" where
  "splitAtFirst pat [] = (if pat = [] then Some ([], []) else None)"
| "splitAtFirst pat (c # cs) =
     (if take (length pat) (c # cs) = pat then Some ([], drop (length pat) (c # cs))
      else (case splitAtFirst pat cs of
              None \<Rightarrow> None
            | Some (b, a) \<Rightarrow> Some (c # b, a)))"

definition fenceOpen :: string where
  "fenceOpen = ''```json'' @ [CHR 0x0A]"

definition fenceClose :: string where
  "fenceClose = [CHR 0x0A] @ ''```''"

text \<open>
  \<open>/```json\n([\s\S]*?)\n```/\<close>: the leftmost opening fence that has a closing fence
  behind it, and the nearest closing fence (the group is lazy). The result is
  \<open>(match[0], match[1])\<close>.
\<close>

definition fencedMatch :: "string \<Rightarrow> (string \<times> string) option" where
  "fencedMatch s =
     (case splitAtFirst fenceOpen s of
        None \<Rightarrow> None
      | Some (before, rest) \<Rightarrow>
          (case splitAtFirst fenceClose rest of
             None \<Rightarrow> None
           | Some (body, after) \<Rightarrow> Some (fenceOpen @ body @ fenceClose, body)))"

definition isSpace :: "char \<Rightarrow> bool" where
  "isSpace c = (c = CHR 0x09 \<or> c = CHR 0x0A \<or> c = CHR 0x0B \<or> c = CHR 0x0C \<or> c = CHR 0x0D \<or> c = CHR 0x20)"

definition dquote :: char where
  "dquote = CHR 0x22"

text \<open>
  \<open>/\[\s*\{\s*".*?"\s*:/s\<close>. \<open>closingQuote\<close> is the lazy \<open>.*?"\s*:\<close>: the text up to
  and with the first double quote that is followed, after white space, by a colon.
  \<open>bareAt\<close> matches the whole expression at the head of the string, \<open>bareMatch\<close> at the
  leftmost position where it matches; the result is \<open>match[0]\<close> (there is no group).
\<close>

fun closingQuote :: "string \<Rightarrow> string option" where
  "closingQuote [] = None"
| "closingQuote (c # cs) =
     (if c = dquote \<and> (case dropWhile isSpace cs of [] \<Rightarrow> False | d # ds \<Rightarrow> d = CHR '':'')
      then Some (c # takeWhile isSpace cs @ '':'')
      else (case closingQuote cs of None \<Rightarrow> None | Some m \<Rightarrow> Some (c # m)))"

definition bareAt :: "string \<Rightarrow> string option" where
  "bareAt s =
     (case s of
        [] \<Rightarrow> None
      | c # r \<Rightarrow>
          if c \<noteq> CHR ''['' then None
          else (case dropWhile isSpace r of
                  [] \<Rightarrow> None
                | b # r2 \<Rightarrow>
                    if b \<noteq> CHR ''{'' then None
                    else (case dropWhile isSpace r2 of
                            [] \<Rightarrow> None
                          | q # r3 \<Rightarrow>
                              if q \<noteq> dquote then None
                              else (case closingQuote r3 of
                                      None \<Rightarrow> None
                                    | Some m \<Rightarrow>
                                        Some (c # takeWhile isSpace r @ b # takeWhile isSpace r2 @ q # m)))))"

fun bareMatch :: "string \<Rightarrow> string option" where
  "bareMatch [] = None"
| "bareMatch (c # cs) =
     (case bareAt (c # cs) of
        Some m \<Rightarrow> Some m
      | None \<Rightarrow> bareMatch cs)"

definition startsWith :: "string \<Rightarrow> string \<Rightarrow> bool" where
  "startsWith s p = (take (length p) s = p)"

definition endsWith :: "string \<Rightarrow> string \<Rightarrow> bool" where
  "endsWith s p = (length p \<le> length s \<and> drop (length s - length p) s = p)"

text \<open>
  The clean-up before parsing: \<open>]\<close> is appended to a text that starts with \<open>[\<close> and
  does not end with \<open>]\<close>.
\<close>

definition appendBracket :: "string \<Rightarrow> string" where
  "appendBracket jsonText =
     (if startsWith jsonText ''['' \<and> \<not> endsWith jsonText '']'' then jsonText @ '']'' else jsonText)"

text \<open>
  The text handed to \<open>JSON.parse\<close>: \<open>jsonMatch[1] || jsonMatch[0]\<close> of the first
  expression that matches, cleaned up. \<open>None\<close>: neither expression matches.
\<close>

definition jsonTextOf :: "string \<Rightarrow> string option" where
  "jsonTextOf responseText =
     (let jsonMatch =
            (case fencedMatch responseText of
               Some (m0, g1) \<Rightarrow> Some (if g1 \<noteq> [] then g1 else m0)
             | None \<Rightarrow> bareMatch responseText)
      in case jsonMatch of
           None \<Rightarrow> None
         | Some jsonText \<Rightarrow> Some (appendBracket jsonText))"

definition formatItem :: "string \<Rightarrow> string \<Rightarrow> item \<Rightarrow> listing" where
  "formatItem src modelUsed it =
     \<lparr>title = js_or (js_or (field it ''title'') (field it ''address'')) (JStr ''Property Listing''),
      price = js_or (field it ''price'') (JStr ''Price not specified''),
      address = js_or (field it ''address'') (JStr ''Address not specified''),
      details = \<lparr>bedrooms = js_or (js_or (field it ''bedrooms'') (field it ''beds'')) (JStr ''Not specified''),
                 bathrooms = js_or (js_or (field it ''bathrooms'') (field it ''baths'')) (JStr ''Not specified''),
                 squareFeet = js_or (js_or (js_or (field it ''squareFeet'') (field it ''sqft'')) (field it ''area''))
                                (JStr ''Not specified'')\<rparr>,
      description = js_or (field it ''description'') (JStr []),
      url = js_or (js_or (field it ''url'') (field it ''link'')) (JStr []),
      source = str_or src ''real-estate-site'' @ '' ('' @ modelUsed @ '' extraction)'',
      imageUrl = None,
      listingAgent = None,
      listingStatus = None\<rparr>"

text \<open>
  \<open>parse\<close> is \<open>JSON.parse\<close> (\<open>None\<close>: it throws). A value that is not an array is
  wrapped in one. A \<open>null\<close> element makes the mapping throw, and the same \<open>catch\<close>
  returns \<open>null\<close>.
\<close>

definition processLLMResponse ::
  "(string \<Rightarrow> parsed option) \<Rightarrow> string \<Rightarrow> string \<Rightarrow> string \<Rightarrow> extraction_result option" where
  "processLLMResponse parse responseText src modelUsed =
     (case jsonTextOf responseText of
        None \<Rightarrow> None
      | Some jsonText \<Rightarrow>
          (case parse jsonText of
             None \<Rightarrow> None
           | Some parsedListings \<Rightarrow>
               (let ls = (case parsedListings of PArray xs \<Rightarrow> xs | PValue x \<Rightarrow> [x])
                in case those ls of
                     None \<Rightarrow> None
                   | Some its \<Rightarrow>
                       (let formattedListings = map (formatItem src modelUsed) its
                        in Some \<lparr>count = length formattedListings, listings = formattedListings,
                                 note_field = Some (''Results extracted using Puppeteer and '' @ modelUsed @ '' processing''),
                                 error = None\<rparr>))))"

definition extractListingsWithLLM ::
  "env \<Rightarrow> string \<Rightarrow> criteria \<Rightarrow> string \<Rightarrow> event list \<times> extraction_result option" where
  "extractListingsWithLLM e content c src =
     ([ModelInvoke],
      case modelInvoke e c (take 12000 content) of
        Inl msg \<Rightarrow> None
      | Inr responseText \<Rightarrow> processLLMResponse (jsonParse e) responseText src ''OpenAI'')"

subsection \<open>Tier 4: pattern extraction\<close>

definition patternListing ::
  "string \<Rightarrow> string list \<Rightarrow> string list \<Rightarrow> string list \<Rightarrow> string list \<Rightarrow> string list \<Rightarrow> nat \<Rightarrow> listing" where
  "patternListing src prices addresses beds baths sqfts i =
     \<lparr>title = JStr (''Property in '' @ str_or src ''listed area''),
      price = JStr (if i < length prices then prices ! i else ''Price not specified''),
      address = JStr (if i < length addresses then addresses ! i else ''Address not specified''),
      details = \<lparr>bedrooms = JStr (if i < length beds then beds ! i else ''Not specified''),
                 bathrooms = JStr (if i < length baths then baths ! i else ''Not specified''),
                 squareFeet = JStr (if i < length sqfts then sqfts ! i else ''Not specified'')\<rparr>,
      description = JStr (''Property extracted from '' @ str_or src ''real estate website'' @ '' using pattern matching.''),
      url = JStr [],
      source = str_or src ''real-estate-site'' @ '' (pattern extraction)'',
      imageUrl = None,
      listingAgent = None,
      listingStatus = None\<rparr>"

definition maxEntries :: "nat \<Rightarrow> nat \<Rightarrow> nat \<Rightarrow> nat \<Rightarrow> nat \<Rightarrow> nat" where
  "maxEntries np na nb nt ns = min np (min (max na 10) (min (max nb 10) (min (max nt 10) (max ns 10))))"

definition processDocumentWithPatterns :: "env \<Rightarrow> string \<Rightarrow> string \<Rightarrow> extraction_result" where
  "processDocumentWithPatterns e content src =
     (let prices = matchAll e PricePattern content;
          addresses = matchAll e AddressPattern content;
          beds = matchAll e BedroomPattern content;
          baths = matchAll e BathroomPattern content;
          sqfts = matchAll e SqftPattern content;
          n = maxEntries (length prices) (length addresses) (length beds) (length baths) (length sqfts);
          ls = map (patternListing src prices addresses beds baths sqfts) [0..<n]
      in \<lparr>count = length ls, listings = ls,
          note_field = Some ''Results extracted using pattern matching'', error = None\<rparr>)"

subsection \<open>Tier 5: simple scraping\<close>

definition cardListing :: "env \<Rightarrow> string \<Rightarrow> property_card \<Rightarrow> listing" where
  "cardListing e src cd =
     \<lparr>title = JStr (str_or (anchorText cd) ''Property Listing''),
      price = JStr (case matchAll e PricePattern (cardText cd) of
                      [] \<Rightarrow> ''Price not specified''
                    | p # ps \<Rightarrow> p),
      address = JStr ''Address extraction requires more detailed parsing'',
      details = \<lparr>bedrooms = JStr ''Not specified in simple parsing'',
                 bathrooms = JStr ''Not specified in simple parsing'',
                 squareFeet = JStr ''Not specified in simple parsing''\<rparr>,
      description = JStr ''Limited information available from simple parsing'',
      url = JStr (case href cd of
                    None \<Rightarrow> []
                  | Some relativeUrl \<Rightarrow>
                      if relativeUrl = [] then []
                      else if startsWith relativeUrl ''http'' then relativeUrl
                      else ''https://'' @ src @ ''.com'' @ relativeUrl),
      source = src @ '' (simple parsing fallback)'',
      imageUrl = None,
      listingAgent = None,
      listingStatus = None\<rparr>"

text \<open>
  The whole body of \<open>simpleScrapingFallback\<close> is inside its own \<open>try\<close>, whose \<open>catch\<close>
  returns a result; the sum type keeps the shape its caller's \<open>try\<close> expects.
\<close>

definition simpleScrapingFallback ::
  "env \<Rightarrow> string \<Rightarrow> string \<Rightarrow> event list \<times> (string + extraction_result)" where
  "simpleScrapingFallback e loc src =
     ([HttpGet],
      case httpGet e loc src of
        Inl msg \<Rightarrow> Inr (failureResult (''Simple scraping fallback failed: '' @ msg))
      | Inr cards \<Rightarrow>
          (let ls = map (cardListing e src) cards
           in Inr \<lparr>count = length ls, listings = ls,
                   note_field = Some ''Results from simple parsing fallback may be limited in detail'',
                   error = None\<rparr>))"

subsection \<open>Tier 2 and the orchestration\<close>

text \<open>The \<open>catch\<close> block of \<open>fallbackToPuppeteerWebBaseLoader\<close>, with the message of
  the error it caught.\<close>

definition fallbackCatch :: "env \<Rightarrow> criteria \<Rightarrow> string \<Rightarrow> event list \<times> extraction_result" where
  "fallbackCatch e c msg =
     (case simpleScrapingFallback e (location c) (crit_source c) of
        (tr, Inr r) \<Rightarrow> (tr, r)
      | (tr, Inl fmsg) \<Rightarrow>
          (tr, failureResult (''Both Puppeteer and simple scraping failed. Original error: '' @ msg
                              @ ''. Fallback error: '' @ fmsg)))"

definition fallbackToPuppeteerWebBaseLoader :: "env \<Rightarrow> criteria \<Rightarrow> event list \<times> extraction_result" where
  "fallbackToPuppeteerWebBaseLoader e c =
     (case loaderLoad e c of
        Inl msg \<Rightarrow> (case fallbackCatch e c msg of (tr, r) \<Rightarrow> (LoaderLoad # tr, r))
      | Inr docs \<Rightarrow>
          (case docs of
             [] \<Rightarrow> (case fallbackCatch e c ''No content was loaded from the page'' of
                      (tr, r) \<Rightarrow> (LoaderLoad # tr, r))
           | d # ds \<Rightarrow>
               (case extractListingsWithLLM e d c (crit_source c) of
                  (tr, Some llmResult) \<Rightarrow>
                    if count llmResult > 0 then (LoaderLoad # tr, llmResult)
                    else (LoaderLoad # tr, processDocumentWithPatterns e d (crit_source c))
                | (tr, None) \<Rightarrow> (LoaderLoad # tr, processDocumentWithPatterns e d (crit_source c)))))"

definition tokenMessage :: string where
  "tokenMessage = ''APIFY_TOKEN is required but not set in your environment variables''"

text \<open>\<open>searchRealEstateListingsTool.func\<close>: \<open>Inl\<close> is an error thrown to the caller.\<close>

definition searchFunc :: "env \<Rightarrow> criteria \<Rightarrow> event list \<times> (string + extraction_result)" where
  "searchFunc e c =
     (if \<not> apifyToken e then ([], Inl tokenMessage)
      else if forceFallback c then
        (case fallbackToPuppeteerWebBaseLoader e c of (tr, r) \<Rightarrow> (tr, Inr r))
      else (case actorCall e (actorFor (crit_source c)) c of
              Inr items \<Rightarrow>
                (ActorCall (actorFor (crit_source c))
                   # chargeAll e (volumeCharges (length items) (crit_source c)),
                 Inr (processRealEstateListings items (crit_source c)))
            | Inl msg \<Rightarrow>
                (case fallbackToPuppeteerWebBaseLoader e c of
                   (tr, r) \<Rightarrow>
                     (ActorCall (actorFor (crit_source c)) # chargeAll e [''fallback-extraction''] @ tr,
                      Inr r))))"

section \<open>The outcome of a sweep, monitor by monitor\<close>

text \<open>
  What the full-sweep contract speaks of, for one monitor id and its entry in the store.
  \<open>pollOutcome\<close> is the result of the search of a monitor that is in the store and is
  eligible at \<open>now\<close>, when the search returned (\<open>None\<close> otherwise). \<open>polled\<close> holds
  when the entry could be read and there is such a result; \<open>hasNew\<close> when in addition
  the novelty diff of that result against the stored one is not empty. \<open>afterPoll\<close> is
  the entry as the sweep leaves it, \<open>reading\<close> being the clock reading of
  \<open>getNextRunTime\<close>.
\<close>

definition pollOutcome ::
  "(criteria \<Rightarrow> string + extraction_result) \<Rightarrow> int \<Rightarrow> monitorConfig option \<Rightarrow> extraction_result option" where
  "pollOutcome search now entry =
     (case entry of
        None \<Rightarrow> None
      | Some cfg \<Rightarrow>
          if shouldRunMonitor cfg now
          then (case search (monitorCriteria cfg) of Inl err \<Rightarrow> None | Inr res \<Rightarrow> Some res)
          else None)"

definition previousListings :: "monitorConfig \<Rightarrow> listing list" where
  "previousListings cfg = (case lastResults cfg of None \<Rightarrow> [] | Some prev \<Rightarrow> listings prev)"

definition polled ::
  "host \<Rightarrow> (criteria \<Rightarrow> string + extraction_result) \<Rightarrow> int \<Rightarrow> string \<Rightarrow> monitorConfig option \<Rightarrow> bool" where
  "polled h search now mid entry = (\<not> getFails h mid \<and> pollOutcome search now entry \<noteq> None)"

definition hasNew ::
  "host \<Rightarrow> (criteria \<Rightarrow> string + extraction_result) \<Rightarrow> int \<Rightarrow> string \<Rightarrow> monitorConfig option \<Rightarrow> bool" where
  "hasNew h search now mid entry =
     (\<not> getFails h mid \<and>
      (case entry of
         None \<Rightarrow> False
       | Some cfg \<Rightarrow>
           (case pollOutcome search now entry of
              None \<Rightarrow> False
            | Some res \<Rightarrow> findNewListings (listings res) (Some (previousListings cfg)) \<noteq> [])))"

definition afterPoll ::
  "host \<Rightarrow> (criteria \<Rightarrow> string + extraction_result) \<Rightarrow> int \<Rightarrow> int \<Rightarrow> string \<Rightarrow>
   monitorConfig option \<Rightarrow> monitorConfig option" where
  "afterPoll h search now reading mid entry =
     (case entry of
        None \<Rightarrow> None
      | Some cfg \<Rightarrow>
          if getFails h mid \<or> setFails h mid then Some cfg
          else (case pollOutcome search now entry of
                  None \<Rightarrow> Some cfg
                | Some res \<Rightarrow>
                    Some (cfg\<lparr>lastChecked := Some now, lastResults := Some res,
                              nextRun := Some (getNextRunTime h (frequency cfg) reading)\<rparr>)))"

section \<open>Sample inputs\<close>

text \<open>
  Inputs the closed theorems below are evaluated at: search criteria as a caller passes
  them, an environment in which every collaborator fails, and a monitor as
  \<open>monitorRealEstateListingsTool\<close> first stores it.
\<close>

definition seattle :: criteria where
  "seattle =
     \<lparr>location = ''Seattle, WA'', minPrice = Some 700000, maxPrice = Some 1200000,
      propertyType = ''any'', crit_bedrooms = None, crit_bathrooms = None, maxResults = 10,
      crit_source = ''zillow'', forceFallback = False\<rparr>"

definition failingEnv :: env where
  "failingEnv =
     \<lparr>apifyToken = True,
      actorCall = (\<lambda>a c. Inl ''Actor run failed''),
      chargeOk = (\<lambda>n. True),
      loaderLoad = (\<lambda>c. Inl ''Navigation timeout of 60000 ms exceeded''),
      modelInvoke = (\<lambda>c s. Inl ''model unavailable''),
      jsonParse = (\<lambda>s. None),
      matchAll = (\<lambda>p s. []),
      httpGet = (\<lambda>l s. Inl ''Request failed with status code 403'')\<rparr>"

definition newMonitor :: "string \<Rightarrow> string option \<Rightarrow> monitorConfig" where
  "newMonitor mid freq =
     \<lparr>monitorId = mid, createdAt = 0, mon_location = ''Austin, TX'', mon_minPrice = None,
      mon_maxPrice = None, mon_propertyType = ''any'', mon_bedrooms = None, mon_bathrooms = None,
      frequency = freq, notificationEmail = None, lastChecked = None, lastResults = None,
      nextRun = None\<rparr>"

text \<open>The same monitor after a check at time \<open>t\<close>.\<close>

definition checkedMonitor :: "string option \<Rightarrow> int \<Rightarrow> monitorConfig" where
  "checkedMonitor freq t = (newMonitor ''m1'' freq)\<lparr>lastChecked := Some t\<rparr>"

text \<open>A listing as the pattern tier builds it from one price token.\<close>

definition priceOnlyListing :: listing where
  "priceOnlyListing = patternListing ''zillow'' [''$500,000''] [] [] [] [] 0"

text \<open>
  An environment whose page text has the given price, address and bedroom tokens and no
  bathroom or square-footage token. A page text of eight lines with three prices, five
  street addresses and no bedroom count, the environment that matches it, and that
  environment with a page load that returns the text.
\<close>

definition patternEnv :: "string list \<Rightarrow> string list \<Rightarrow> string list \<Rightarrow> env" where
  "patternEnv ps adrs bs =
     failingEnv\<lparr>matchAll := (\<lambda>p s. case p of PricePattern \<Rightarrow> ps | AddressPattern \<Rightarrow> adrs
                                     | BedroomPattern \<Rightarrow> bs | BathroomPattern \<Rightarrow> [] | SqftPattern \<Rightarrow> [])\<rparr>"

definition pageText :: string where
  "pageText =
     concat (map (\<lambda>line. line @ [CHR 0x0A])
       [''$450,000.'', ''12 Oak St.'', ''$525,000.'', ''34 Pine Ave.'', ''$610,000.'', ''56 Elm Rd.'',
        ''78 Lake Dr.'', ''90 Hill Ct.''])"

definition threeFiveEnv :: env where
  "threeFiveEnv =
     patternEnv [''$450,000'', ''$525,000'', ''$610,000'']
       [''12 Oak St'', ''34 Pine Ave'', ''56 Elm Rd'', ''78 Lake Dr'', ''90 Hill Ct''] []"

definition patternPageEnv :: env where
  "patternPageEnv = threeFiveEnv\<lparr>loaderLoad := (\<lambda>c. Inr [pageText])\<rparr>"

definition pageResult :: extraction_result where
  "pageResult = processDocumentWithPatterns patternPageEnv pageText ''any''"

text \<open>
  A model response with a fenced block around \<open>[{"beds":3}]\<close>, what \<open>JSON.parse\<close>
  makes of that text (no other text is parsed in the samples but the one ending in
  \<open>:]\<close>, which is no JSON), and an environment whose page loads and whose model answers
  with that response.
\<close>

definition listingJson :: string where
  "listingJson = ''[{'' @ [dquote] @ ''beds'' @ [dquote] @ '':3}]''"

definition modelResponse :: string where
  "modelResponse = ''Here are the listings:'' @ [CHR 0x0A] @ fenceOpen @ listingJson @ fenceClose"

definition parseListingJson :: "string \<Rightarrow> parsed option" where
  "parseListingJson s = (if s = listingJson then Some (PArray [Some [(''beds'', JNum 3)]]) else None)"

text \<open>A response whose fenced block is \<open>[null]\<close>, and what \<open>JSON.parse\<close> makes of it.\<close>

definition nullResponse :: string where
  "nullResponse = fenceOpen @ ''[null]'' @ fenceClose"

definition parseNullArray :: "string \<Rightarrow> parsed option" where
  "parseNullArray s = (if s = ''[null]'' then Some (PArray [None]) else None)"

text \<open>A response that is an array cut off after its first key.\<close>

definition truncatedResponse :: string where
  "truncatedResponse = ''[{'' @ [dquote] @ ''beds'' @ [dquote] @ '':''"

definition modelEnv :: env where
  "modelEnv = failingEnv\<lparr>loaderLoad := (\<lambda>c. Inr [pageText]),
                          modelInvoke := (\<lambda>c s. Inr modelResponse),
                          jsonParse := parseListingJson\<rparr>"

text \<open>
  Hosts: one on UTC where nothing fails and \<open>Actor.exit()\<close> ends the process as the SDK
  does; the same with an \<open>Actor.exit()\<close> that comes back; and one on New York time
  around 8 March 2026, when at 07:00 UTC the local clocks go from 02:00 to 03:00 (a local
  time in the skipped hour is read back with the offset before the change).
\<close>

definition utcHost :: host where
  "utcHost =
     \<lparr>offsetOfUtc = (\<lambda>t. 0), offsetOfLocal = (\<lambda>lt. 0), initError = None, openError = None,
      getFails = (\<lambda>mid. False), setFails = (\<lambda>mid. False), exitEndsProcess = True\<rparr>"

definition returningHost :: host where
  "returningHost = utcHost\<lparr>exitEndsProcess := False\<rparr>"

definition newYorkHost :: host where
  "newYorkHost =
     utcHost\<lparr>offsetOfUtc := (\<lambda>t. if t < 1772953200000 then - 18000000 else - 14400000),
             offsetOfLocal := (\<lambda>lt. if lt < 1772938800000 then - 18000000 else - 14400000)\<rparr>"

text \<open>
  A store with two monitors that were never checked; a tool invocation that throws for
  the second one's criteria and runs the pipeline for any other; and the tool invocation
  in the environment where every collaborator fails.
\<close>

definition failingSearch :: "criteria \<Rightarrow> string + extraction_result" where
  "failingSearch c = snd (searchFunc failingEnv c)"

definition flakySearch :: "criteria \<Rightarrow> string + extraction_result" where
  "flakySearch c = (if location c = ''Nowhere'' then Inl ''search failed'' else snd (searchFunc patternPageEnv c))"

definition sampleStore :: store where
  "sampleStore =
     \<lparr>monitorsList = Some [''m1'', ''m2''],
      monitors = [''m1'' \<mapsto> newMonitor ''m1'' (Some ''realtime''),
                  ''m2'' \<mapsto> (newMonitor ''m2'' (Some ''daily''))\<lparr>mon_location := ''Nowhere''\<rparr>]\<rparr>"

text \<open>
  The same store with its first monitor listed twice, and a host on which every write
  to the store fails.
\<close>

definition repeatedStore :: store where
  "repeatedStore = sampleStore\<lparr>monitorsList := Some [''m1'', ''m1'']\<rparr>"

definition writeFailingHost :: host where
  "writeFailingHost = returningHost\<lparr>setFails := (\<lambda>mid. True)\<rparr>"

section \<open>Novelty diff\<close>

lemma findNewListings_absent: "findNewListings cur None = cur"
  by (simp add: findNewListings_def)

lemma findNewListings_empty: "findNewListings cur (Some []) = cur"
  by (simp add: findNewListings_def)

lemma findNewListings_nonempty:
  "prev \<noteq> [] \<Longrightarrow> findNewListings cur (Some prev) = filter (\<lambda>l. url l \<notin> url ` set prev) cur"
  by (simp add: findNewListings_def)

lemma priceOnlyListing_url: "url priceOnlyListing = JStr []"
  by (simp add: priceOnlyListing_def patternListing_def)

text \<open>
  C1 as stated fails: a listing with the empty url is dropped when a previous listing has
  the empty url too. The input is the same pattern-extracted listing, seen in two polls
  in a row.
\<close>

theorem findNewListings_drops_empty_url:
  "url priceOnlyListing = JStr [] \<and> priceOnlyListing \<in> set [priceOnlyListing]
   \<and> findNewListings [priceOnlyListing] (Some [priceOnlyListing]) = []"
  by (simp add: findNewListings_def priceOnlyListing_url)

text \<open>
  C1, amended. \<open>findNewListings\<close> returns all of \<open>current\<close> when \<open>previous\<close> is absent or
  empty. Otherwise it returns, in the order of \<open>current\<close>, the listings whose url is not
  the url of a previous listing, the empty url being a url like any other: a listing of
  \<open>current\<close> with the empty url is in the result exactly when no previous listing has the
  empty url.
\<close>

theorem findNewListings_filters_by_url:
  "findNewListings cur None = cur
   \<and> findNewListings cur (Some []) = cur
   \<and> (prev \<noteq> [] \<longrightarrow>
        findNewListings cur (Some prev) = filter (\<lambda>l. url l \<notin> url ` set prev) cur)
   \<and> (prev \<noteq> [] \<longrightarrow>
        (\<forall>l \<in> set cur. url l = JStr [] \<longrightarrow>
           (l \<in> set (findNewListings cur (Some prev)) \<longleftrightarrow> (\<forall>p \<in> set prev. url p \<noteq> JStr []))))"
proof (intro conjI impI ballI)
  show "findNewListings cur None = cur" by (rule findNewListings_absent)
  show "findNewListings cur (Some []) = cur" by (rule findNewListings_empty)
next
  assume "prev \<noteq> []"
  then show "findNewListings cur (Some prev) = filter (\<lambda>l. url l \<notin> url ` set prev) cur"
    by (rule findNewListings_nonempty)
next
  fix l
  assume ne: "prev \<noteq> []" and l: "l \<in> set cur" and u: "url l = JStr []"
  have "l \<in> set (findNewListings cur (Some prev)) \<longleftrightarrow> url l \<notin> url ` set prev"
    using l by (simp add: findNewListings_nonempty [OF ne])
  also have "\<dots> \<longleftrightarrow> (\<forall>p \<in> set prev. url p \<noteq> JStr [])"
    using u by (auto simp: image_iff)
  finally show "l \<in> set (findNewListings cur (Some prev)) \<longleftrightarrow> (\<forall>p \<in> set prev. url p \<noteq> JStr [])" .
qed

theorem findNewListings_filters_by_url_witness:
  "[priceOnlyListing] \<noteq> [] \<and> priceOnlyListing \<in> set [priceOnlyListing]
   \<and> url priceOnlyListing = JStr []
   \<and> findNewListings [priceOnlyListing] (Some [priceOnlyListing])
       = filter (\<lambda>l. url l \<notin> url ` set [priceOnlyListing]) [priceOnlyListing]
   \<and> priceOnlyListing \<notin> set (findNewListings [priceOnlyListing] (Some [priceOnlyListing]))"
  using findNewListings_filters_by_url [of "[priceOnlyListing]" "[priceOnlyListing]"]
  by (simp add: priceOnlyListing_url)

section \<open>Eligibility\<close>

text \<open>
  C3. A monitor that was never checked runs. Otherwise, with the elapsed time
  \<open>(now - lastChecked) / 3600000\<close> in hours, it runs exactly when the elapsed time has
  reached a quarter of an hour for \<open>realtime\<close>, 24 hours for \<open>daily\<close>, 168 hours for
  \<open>weekly\<close>, and 24 hours for any other or a missing frequency.
\<close>

theorem shouldRunMonitor_thresholds:
  "(lastChecked cfg = None \<longrightarrow> shouldRunMonitor cfg now)
   \<and> (lastChecked cfg = Some t \<longrightarrow>
        (frequency cfg = Some ''realtime'' \<longrightarrow>
           (shouldRunMonitor cfg now \<longleftrightarrow> (1 / 4 :: rat) \<le> of_int (now - t) / 3600000))
      \<and> (frequency cfg = Some ''daily'' \<longrightarrow>
           (shouldRunMonitor cfg now \<longleftrightarrow> (24 :: rat) \<le> of_int (now - t) / 3600000))
      \<and> (frequency cfg = Some ''weekly'' \<longrightarrow>
           (shouldRunMonitor cfg now \<longleftrightarrow> (168 :: rat) \<le> of_int (now - t) / 3600000))
      \<and> (frequency cfg \<noteq> Some ''realtime'' \<and> frequency cfg \<noteq> Some ''daily''
           \<and> frequency cfg \<noteq> Some ''weekly'' \<longrightarrow>
           (shouldRunMonitor cfg now \<longleftrightarrow> (24 :: rat) \<le> of_int (now - t) / 3600000)))"
  by (auto simp add: shouldRunMonitor_def hoursSinceLastCheck_def Let_def)

theorem shouldRunMonitor_thresholds_witness:
  "shouldRunMonitor (newMonitor ''m1'' (Some ''weekly'')) 0
   \<and> shouldRunMonitor (checkedMonitor (Some ''realtime'') 1000) 901000
   \<and> \<not> shouldRunMonitor (checkedMonitor (Some ''realtime'') 1000) 900999
   \<and> shouldRunMonitor (checkedMonitor (Some ''daily'') 1000) 86401000
   \<and> \<not> shouldRunMonitor (checkedMonitor (Some ''daily'') 1000) 86400999
   \<and> shouldRunMonitor (checkedMonitor (Some ''weekly'') 1000) 604801000
   \<and> \<not> shouldRunMonitor (checkedMonitor (Some ''weekly'') 1000) 604800999
   \<and> shouldRunMonitor (checkedMonitor (Some ''hourly'') 1000) 86401000
   \<and> \<not> shouldRunMonitor (checkedMonitor (Some ''hourly'') 1000) 86400999
   \<and> shouldRunMonitor (checkedMonitor None 1000) 86401000
   \<and> \<not> shouldRunMonitor (checkedMonitor None 1000) 86400999"
  using shouldRunMonitor_thresholds [of "newMonitor ''m1'' (Some ''weekly'')" 0 0]
    shouldRunMonitor_thresholds [of "checkedMonitor (Some ''realtime'') 1000" 901000 1000]
    shouldRunMonitor_thresholds [of "checkedMonitor (Some ''realtime'') 1000" 900999 1000]
    shouldRunMonitor_thresholds [of "checkedMonitor (Some ''daily'') 1000" 86401000 1000]
    shouldRunMonitor_thresholds [of "checkedMonitor (Some ''daily'') 1000" 86400999 1000]
    shouldRunMonitor_thresholds [of "checkedMonitor (Some ''weekly'') 1000" 604801000 1000]
    shouldRunMonitor_thresholds [of "checkedMonitor (Some ''weekly'') 1000" 604800999 1000]
    shouldRunMonitor_thresholds [of "checkedMonitor (Some ''hourly'') 1000" 86401000 1000]
    shouldRunMonitor_thresholds [of "checkedMonitor (Some ''hourly'') 1000" 86400999 1000]
    shouldRunMonitor_thresholds [of "checkedMonitor None 1000" 86401000 1000]
    shouldRunMonitor_thresholds [of "checkedMonitor None 1000" 86400999 1000]
  by (simp add: checkedMonitor_def newMonitor_def)

lemma shouldRunMonitor_mono:
  "shouldRunMonitor cfg now \<Longrightarrow> now \<le> now' \<Longrightarrow> shouldRunMonitor cfg now'"
  by (auto simp add: shouldRunMonitor_def hoursSinceLastCheck_def Let_def split: option.splits if_splits)

lemma shouldRunMonitor_just_checked:
  "lastChecked cfg = Some now \<Longrightarrow> \<not> shouldRunMonitor cfg now"
  by (simp add: shouldRunMonitor_def hoursSinceLastCheck_def)

section \<open>The count of a result\<close>

lemma failureResult_count: "count (failureResult msg) = length (listings (failureResult msg))"
  by (simp add: failureResult_def)

lemma processRealEstateListings_count:
  "count (processRealEstateListings items src) = length (listings (processRealEstateListings items src))"
  by (simp add: processRealEstateListings_def failureResult_def Let_def split: option.split)

lemma processLLMResponse_count:
  "processLLMResponse parse txt src m = Some r \<Longrightarrow> count r = length (listings r)"
  by (auto simp add: processLLMResponse_def Let_def split: option.splits)

lemma extractListingsWithLLM_count:
  "extractListingsWithLLM e content c src = (tr, Some r) \<Longrightarrow> count r = length (listings r)"
  by (auto simp add: extractListingsWithLLM_def split: sum.splits dest: processLLMResponse_count)

lemma processDocumentWithPatterns_count:
  "count (processDocumentWithPatterns e content src) = length (listings (processDocumentWithPatterns e content src))"
  by (simp add: processDocumentWithPatterns_def Let_def)

lemma simpleScrapingFallback_count:
  "simpleScrapingFallback e loc src = (tr, Inr r) \<Longrightarrow> count r = length (listings r)"
  by (auto simp add: simpleScrapingFallback_def failureResult_def Let_def split: sum.splits)

lemma simpleScrapingFallback_returns:
  "\<exists>r. simpleScrapingFallback e loc src = ([HttpGet], Inr r)"
  by (simp add: simpleScrapingFallback_def Let_def split: sum.split)

lemma fallbackCatch_count:
  "fallbackCatch e c msg = (tr, r) \<Longrightarrow> count r = length (listings r)"
  by (auto simp add: fallbackCatch_def failureResult_count split: prod.splits sum.splits
      dest: simpleScrapingFallback_count)

lemma fallbackToPuppeteerWebBaseLoader_count:
  "fallbackToPuppeteerWebBaseLoader e c = (tr, r) \<Longrightarrow> count r = length (listings r)"
  by (auto simp add: fallbackToPuppeteerWebBaseLoader_def processDocumentWithPatterns_count
      split: prod.splits sum.splits list.splits option.splits if_splits
      dest: fallbackCatch_count extractListingsWithLLM_count)

lemma searchFunc_count:
  "searchFunc e c = (tr, Inr r) \<Longrightarrow> count r = length (listings r)"
  by (auto simp add: searchFunc_def processRealEstateListings_count
      split: prod.splits sum.splits if_splits
      dest: fallbackToPuppeteerWebBaseLoader_count)

text \<open>
  The sample inputs, evaluated: the text the fenced response hands to the parser, the
  result of the model tier on it, and the search in the environment where every
  collaborator fails.
\<close>

lemma jsonTextOf_modelResponse: "jsonTextOf modelResponse = Some listingJson"
  by (simp add: jsonTextOf_def appendBracket_def modelResponse_def fencedMatch_def fenceOpen_def
      fenceClose_def listingJson_def dquote_def startsWith_def endsWith_def)

lemma processLLMResponse_modelResponse:
  "processLLMResponse parseListingJson modelResponse ''zillow'' ''OpenAI''
   = Some \<lparr>count = 1, listings = [formatItem ''zillow'' ''OpenAI'' [(''beds'', JNum 3)]],
            note_field = Some ''Results extracted using Puppeteer and OpenAI processing'',
            error = None\<rparr>"
  by (simp add: processLLMResponse_def jsonTextOf_modelResponse parseListingJson_def)

lemma searchFunc_failingEnv:
  "searchFunc failingEnv seattle
   = ([ActorCall ''maxcopell/zillow-scraper'', Charge ''fallback-extraction'', LoaderLoad, HttpGet],
      Inr (failureResult ''Simple scraping fallback failed: Request failed with status code 403''))"
  by (simp add: searchFunc_def failingEnv_def seattle_def actorFor_def
      fallbackToPuppeteerWebBaseLoader_def fallbackCatch_def simpleScrapingFallback_def)

text \<open>
  C2. In every result that a tier produces, \<open>count\<close> is the length of \<open>listings\<close>: the
  mapping of the specialized source's items, the model extraction, the pattern
  extraction, the simple-parsing fallback, every error branch (\<open>failureResult\<close>), the
  browser fallback as a whole and the search tool as a whole.
\<close>

theorem extraction_result_count:
  "count (processRealEstateListings items src) = length (listings (processRealEstateListings items src))
   \<and> (processLLMResponse parse responseText src m = Some ra \<longrightarrow> count ra = length (listings ra))
   \<and> count (processDocumentWithPatterns e content src)
       = length (listings (processDocumentWithPatterns e content src))
   \<and> (simpleScrapingFallback e loc src = (trb, Inr rb) \<longrightarrow> count rb = length (listings rb))
   \<and> count (failureResult msg) = length (listings (failureResult msg))
   \<and> (fallbackToPuppeteerWebBaseLoader e c = (trc, rc) \<longrightarrow> count rc = length (listings rc))
   \<and> (searchFunc e c = (trd, Inr rd) \<longrightarrow> count rd = length (listings rd))"
  using processRealEstateListings_count processLLMResponse_count processDocumentWithPatterns_count
    simpleScrapingFallback_count failureResult_count fallbackToPuppeteerWebBaseLoader_count
    searchFunc_count
  by (intro conjI impI) auto

theorem extraction_result_count_witness:
  "(\<exists>r. processLLMResponse parseListingJson modelResponse ''zillow'' ''OpenAI'' = Some r
         \<and> count r = length (listings r))
   \<and> (\<exists>tr r. simpleScrapingFallback failingEnv ''Seattle, WA'' ''zillow'' = (tr, Inr r)
         \<and> count r = length (listings r))
   \<and> (\<exists>tr r. fallbackToPuppeteerWebBaseLoader failingEnv seattle = (tr, r)
         \<and> count r = length (listings r))
   \<and> (\<exists>tr r. searchFunc failingEnv seattle = (tr, Inr r) \<and> count r = length (listings r))"
proof (intro conjI)
  obtain r where r: "processLLMResponse parseListingJson modelResponse ''zillow'' ''OpenAI'' = Some r"
    using processLLMResponse_modelResponse by blast
  with extraction_result_count [where parse = parseListingJson and responseText = modelResponse
      and src = "''zillow''" and m = "''OpenAI''" and ra = r]
  show "\<exists>r. processLLMResponse parseListingJson modelResponse ''zillow'' ''OpenAI'' = Some r
         \<and> count r = length (listings r)" by blast
next
  obtain tr r where r: "simpleScrapingFallback failingEnv ''Seattle, WA'' ''zillow'' = (tr, Inr r)"
    using simpleScrapingFallback_returns by blast
  with extraction_result_count [where e = failingEnv and loc = "''Seattle, WA''"
      and src = "''zillow''" and trb = tr and rb = r]
  show "\<exists>tr r. simpleScrapingFallback failingEnv ''Seattle, WA'' ''zillow'' = (tr, Inr r)
         \<and> count r = length (listings r)" by blast
next
  obtain tr r where r: "fallbackToPuppeteerWebBaseLoader failingEnv seattle = (tr, r)"
    by (cases "fallbackToPuppeteerWebBaseLoader failingEnv seattle") blast
  with extraction_result_count [where e = failingEnv and c = seattle and trc = tr and rc = r]
  show "\<exists>tr r. fallbackToPuppeteerWebBaseLoader failingEnv seattle = (tr, r)
         \<and> count r = length (listings r)" by blast
next
  obtain tr r where r: "searchFunc failingEnv seattle = (tr, Inr r)"
    using searchFunc_failingEnv by blast
  with extraction_result_count [where e = failingEnv and c = seattle and trd = tr and rd = r]
  show "\<exists>tr r. searchFunc failingEnv seattle = (tr, Inr r) \<and> count r = length (listings r)"
    by blast
qed

section \<open>Pattern extraction\<close>

lemma patternListings_length:
  "length (listings (processDocumentWithPatterns e content src))
   = maxEntries (length (matchAll e PricePattern content)) (length (matchAll e AddressPattern content))
       (length (matchAll e BedroomPattern content)) (length (matchAll e BathroomPattern content))
       (length (matchAll e SqftPattern content))"
  by (simp add: processDocumentWithPatterns_def Let_def)

lemma patternListings_nth:
  "i < length (listings (processDocumentWithPatterns e content src)) \<Longrightarrow>
   listings (processDocumentWithPatterns e content src) ! i
   = patternListing src (matchAll e PricePattern content) (matchAll e AddressPattern content)
       (matchAll e BedroomPattern content) (matchAll e BathroomPattern content)
       (matchAll e SqftPattern content) i"
  by (simp add: processDocumentWithPatterns_def Let_def)

lemma patternListings_set:
  "l \<in> set (listings (processDocumentWithPatterns e content src)) \<Longrightarrow>
   \<exists>i < length (listings (processDocumentWithPatterns e content src)).
     l = patternListing src (matchAll e PricePattern content) (matchAll e AddressPattern content)
       (matchAll e BedroomPattern content) (matchAll e BathroomPattern content)
       (matchAll e SqftPattern content) i"
  by (auto simp add: in_set_conv_nth patternListings_nth)

lemma patternListing_url: "url (patternListing src ps adrs bs ts ss i) = JStr []"
  by (simp add: patternListing_def)

lemma pattern_urls_empty:
  "l \<in> set (listings (processDocumentWithPatterns e content src)) \<Longrightarrow> url l = JStr []"
  using patternListings_set [of l e content src] by (auto simp add: patternListing_url)

text \<open>
  C4 as stated fails for the address: a position beyond the address matches is filled
  with \<open>Address not specified\<close>, not with \<open>Not specified\<close>. The input is a page text with
  one price token and no address token.
\<close>

theorem pattern_listing_address_placeholder:
  "length (matchAll (patternEnv [''$500,000''] [] []) AddressPattern ''$500,000'') = 0
   \<and> length (listings (processDocumentWithPatterns (patternEnv [''$500,000''] [] []) ''$500,000'' ''zillow'')) = 1
   \<and> address (listings (processDocumentWithPatterns (patternEnv [''$500,000''] [] []) ''$500,000'' ''zillow'') ! 0)
       = JStr ''Address not specified''
   \<and> address (listings (processDocumentWithPatterns (patternEnv [''$500,000''] [] []) ''$500,000'' ''zillow'') ! 0)
       \<noteq> JStr ''Not specified''"
  by (simp add: processDocumentWithPatterns_def patternEnv_def failingEnv_def maxEntries_def
      patternListing_def)

text \<open>
  C4, amended. The pattern tier produces exactly N listings, N the minimum of the number
  of price matches and of max(address matches, 10), max(bedroom matches, 10),
  max(bathroom matches, 10), max(square-footage matches, 10). Listing number i takes the
  i-th price match, and the i-th match of each other list where there is one; where there
  is none, the address is \<open>Address not specified\<close> and bedrooms, bathrooms and square feet
  are \<open>Not specified\<close>. With exactly 3 price matches, 5 address matches and no bedroom
  match there are exactly 3 listings, each with bedrooms \<open>Not specified\<close>.
\<close>

theorem pattern_extraction_zip:
  "length (listings (processDocumentWithPatterns e content src))
     = min (length (matchAll e PricePattern content))
        (min (max (length (matchAll e AddressPattern content)) 10)
          (min (max (length (matchAll e BedroomPattern content)) 10)
            (min (max (length (matchAll e BathroomPattern content)) 10)
                 (max (length (matchAll e SqftPattern content)) 10))))
   \<and> (\<forall>i < length (listings (processDocumentWithPatterns e content src)).
         price (listings (processDocumentWithPatterns e content src) ! i)
           = JStr (matchAll e PricePattern content ! i)
       \<and> address (listings (processDocumentWithPatterns e content src) ! i)
           = JStr (if i < length (matchAll e AddressPattern content)
                   then matchAll e AddressPattern content ! i else ''Address not specified'')
       \<and> bedrooms (details (listings (processDocumentWithPatterns e content src) ! i))
           = JStr (if i < length (matchAll e BedroomPattern content)
                   then matchAll e BedroomPattern content ! i else ''Not specified'')
       \<and> bathrooms (details (listings (processDocumentWithPatterns e content src) ! i))
           = JStr (if i < length (matchAll e BathroomPattern content)
                   then matchAll e BathroomPattern content ! i else ''Not specified'')
       \<and> squareFeet (details (listings (processDocumentWithPatterns e content src) ! i))
           = JStr (if i < length (matchAll e SqftPattern content)
                   then matchAll e SqftPattern content ! i else ''Not specified''))
   \<and> (length (matchAll e PricePattern content) = 3 \<and> length (matchAll e AddressPattern content) = 5
        \<and> length (matchAll e BedroomPattern content) = 0 \<longrightarrow>
        length (listings (processDocumentWithPatterns e content src)) = 3
        \<and> (\<forall>l \<in> set (listings (processDocumentWithPatterns e content src)).
              bedrooms (details l) = JStr ''Not specified''))"
proof (intro conjI allI impI)
  show "length (listings (processDocumentWithPatterns e content src))
     = min (length (matchAll e PricePattern content))
        (min (max (length (matchAll e AddressPattern content)) 10)
          (min (max (length (matchAll e BedroomPattern content)) 10)
            (min (max (length (matchAll e BathroomPattern content)) 10)
                 (max (length (matchAll e SqftPattern content)) 10))))"
    by (simp add: patternListings_length maxEntries_def)
next
  fix i assume i: "i < length (listings (processDocumentWithPatterns e content src))"
  then have "i < length (matchAll e PricePattern content)"
    by (simp add: patternListings_length maxEntries_def)
  then show "price (listings (processDocumentWithPatterns e content src) ! i)
           = JStr (matchAll e PricePattern content ! i)"
    by (simp add: patternListings_nth [OF i] patternListing_def)
next
  fix i assume i: "i < length (listings (processDocumentWithPatterns e content src))"
  show "address (listings (processDocumentWithPatterns e content src) ! i)
           = JStr (if i < length (matchAll e AddressPattern content)
                   then matchAll e AddressPattern content ! i else ''Address not specified'')"
    by (simp add: patternListings_nth [OF i] patternListing_def)
next
  fix i assume i: "i < length (listings (processDocumentWithPatterns e content src))"
  show "bedrooms (details (listings (processDocumentWithPatterns e content src) ! i))
           = JStr (if i < length (matchAll e BedroomPattern content)
                   then matchAll e BedroomPattern content ! i else ''Not specified'')"
    by (simp add: patternListings_nth [OF i] patternListing_def)
next
  fix i assume i: "i < length (listings (processDocumentWithPatterns e content src))"
  show "bathrooms (details (listings (processDocumentWithPatterns e content src) ! i))
           = JStr (if i < length (matchAll e BathroomPattern content)
                   then matchAll e BathroomPattern content ! i else ''Not specified'')"
    by (simp add: patternListings_nth [OF i] patternListing_def)
next
  fix i assume i: "i < length (listings (processDocumentWithPatterns e content src))"
  show "squareFeet (details (listings (processDocumentWithPatterns e content src) ! i))
           = JStr (if i < length (matchAll e SqftPattern content)
                   then matchAll e SqftPattern content ! i else ''Not specified'')"
    by (simp add: patternListings_nth [OF i] patternListing_def)
next
  assume h: "length (matchAll e PricePattern content) = 3 \<and> length (matchAll e AddressPattern content) = 5
        \<and> length (matchAll e BedroomPattern content) = 0"
  then show "length (listings (processDocumentWithPatterns e content src)) = 3"
    by (simp add: patternListings_length maxEntries_def)
next
  assume h: "length (matchAll e PricePattern content) = 3 \<and> length (matchAll e AddressPattern content) = 5
        \<and> length (matchAll e BedroomPattern content) = 0"
  show "\<forall>l \<in> set (listings (processDocumentWithPatterns e content src)).
              bedrooms (details l) = JStr ''Not specified''"
  proof
    fix l assume "l \<in> set (listings (processDocumentWithPatterns e content src))"
    from patternListings_set [OF this] h show "bedrooms (details l) = JStr ''Not specified''"
      by (auto simp add: patternListing_def)
  qed
qed

theorem pattern_extraction_zip_witness:
  "length (matchAll threeFiveEnv PricePattern pageText) = 3
   \<and> length (matchAll threeFiveEnv AddressPattern pageText) = 5
   \<and> length (matchAll threeFiveEnv BedroomPattern pageText) = 0
   \<and> length (listings (processDocumentWithPatterns threeFiveEnv pageText ''zillow'')) = 3
   \<and> 2 < length (listings (processDocumentWithPatterns threeFiveEnv pageText ''zillow''))
   \<and> price (listings (processDocumentWithPatterns threeFiveEnv pageText ''zillow'') ! 2)
       = JStr ''$610,000''
   \<and> address (listings (processDocumentWithPatterns threeFiveEnv pageText ''zillow'') ! 2)
       = JStr ''56 Elm Rd''
   \<and> bedrooms (details (listings (processDocumentWithPatterns threeFiveEnv pageText ''zillow'') ! 2))
       = JStr ''Not specified''"
proof -
  have m: "matchAll threeFiveEnv PricePattern pageText = [''$450,000'', ''$525,000'', ''$610,000'']"
    "matchAll threeFiveEnv AddressPattern pageText
       = [''12 Oak St'', ''34 Pine Ave'', ''56 Elm Rd'', ''78 Lake Dr'', ''90 Hill Ct'']"
    "matchAll threeFiveEnv BedroomPattern pageText = []"
    "matchAll threeFiveEnv BathroomPattern pageText = []"
    "matchAll threeFiveEnv SqftPattern pageText = []"
    by (simp_all add: threeFiveEnv_def patternEnv_def failingEnv_def)
  show ?thesis
    using pattern_extraction_zip [of threeFiveEnv pageText "''zillow''"]
    by (simp add: m)
qed

text \<open>
  C10. Every listing of the pattern tier has the empty string as url. What the novelty
  diff makes of such listings follows from how it treats that url: against a previous
  pattern-tier result all of them are new when the previous result has no listing, and
  none of them is new otherwise.
\<close>

theorem pattern_listings_have_empty_url:
  "(\<forall>l \<in> set (listings (processDocumentWithPatterns e content src)). url l = JStr [])
   \<and> findNewListings (listings (processDocumentWithPatterns e content src))
        (Some (listings (processDocumentWithPatterns e' content' src')))
      = (if listings (processDocumentWithPatterns e' content' src') = []
         then listings (processDocumentWithPatterns e content src) else [])"
proof (intro conjI ballI)
  fix l assume "l \<in> set (listings (processDocumentWithPatterns e content src))"
  then show "url l = JStr []" by (rule pattern_urls_empty)
next
  let ?cur = "listings (processDocumentWithPatterns e content src)"
  let ?prev = "listings (processDocumentWithPatterns e' content' src')"
  show "findNewListings ?cur (Some ?prev) = (if ?prev = [] then ?cur else [])"
  proof (cases "?prev = []")
    case True
    then show ?thesis by (simp add: findNewListings_empty)
  next
    case False
    then obtain p where p: "p \<in> set ?prev" by (cases ?prev) auto
    then have "JStr [] \<in> url ` set ?prev"
      using pattern_urls_empty [of p e' content' src'] by (metis imageI)
    then have "filter (\<lambda>l. url l \<notin> url ` set ?prev) ?cur = []"
      using pattern_urls_empty [of _ e content src] by (auto simp add: filter_empty_conv)
    with False show ?thesis by (simp add: findNewListings_nonempty)
  qed
qed

theorem pattern_listings_have_empty_url_witness:
  "listings (processDocumentWithPatterns threeFiveEnv pageText ''zillow'') \<noteq> []
   \<and> url (hd (listings (processDocumentWithPatterns threeFiveEnv pageText ''zillow''))) = JStr []
   \<and> findNewListings (listings (processDocumentWithPatterns threeFiveEnv pageText ''zillow''))
        (Some (listings (processDocumentWithPatterns threeFiveEnv pageText ''zillow''))) = []"
proof -
  have n: "length (listings (processDocumentWithPatterns threeFiveEnv pageText ''zillow'')) = 3"
    by (simp add: patternListings_length maxEntries_def threeFiveEnv_def patternEnv_def failingEnv_def)
  then have ne: "listings (processDocumentWithPatterns threeFiveEnv pageText ''zillow'') \<noteq> []"
    by auto
  then have "hd (listings (processDocumentWithPatterns threeFiveEnv pageText ''zillow''))
      \<in> set (listings (processDocumentWithPatterns threeFiveEnv pageText ''zillow''))"
    by simp
  with ne show ?thesis
    using pattern_listings_have_empty_url
      [of threeFiveEnv pageText "''zillow''" threeFiveEnv pageText "''zillow''"]
    by simp
qed

section \<open>Orchestration\<close>

lemma fallbackCatch_trace: "fallbackCatch e c msg = (tr, r) \<Longrightarrow> tr = [HttpGet]"
  using simpleScrapingFallback_returns [of e "location c" "crit_source c"]
  by (auto simp add: fallbackCatch_def)

lemma fallbackCatch_http_failure:
  "httpGet e (location c) (crit_source c) = Inl m \<Longrightarrow>
   fallbackCatch e c msg = ([HttpGet], failureResult (''Simple scraping fallback failed: '' @ m))"
  by (simp add: fallbackCatch_def simpleScrapingFallback_def)

lemma fallback_trace:
  "fst (fallbackToPuppeteerWebBaseLoader e c) = [LoaderLoad, HttpGet]
   \<or> fst (fallbackToPuppeteerWebBaseLoader e c) = [LoaderLoad, ModelInvoke]"
  by (auto simp add: fallbackToPuppeteerWebBaseLoader_def extractListingsWithLLM_def
      split: sum.splits list.splits prod.splits option.splits dest: fallbackCatch_trace)

lemma fallback_all_fail:
  assumes "loaderLoad e c = Inr [] \<or> (\<exists>m. loaderLoad e c = Inl m)"
    and "httpGet e (location c) (crit_source c) = Inl m"
  shows "fallbackToPuppeteerWebBaseLoader e c
         = ([LoaderLoad, HttpGet], failureResult (''Simple scraping fallback failed: '' @ m))"
  using assms
  by (auto simp add: fallbackToPuppeteerWebBaseLoader_def fallbackCatch_http_failure)

lemma searchFunc_returns:
  "apifyToken e \<Longrightarrow> \<exists>tr r. searchFunc e c = (tr, Inr r)"
  by (auto simp add: searchFunc_def split: prod.splits sum.splits)

lemma no_actor_in_fallback:
  "ev \<in> set (fst (fallbackToPuppeteerWebBaseLoader e c)) \<Longrightarrow> ev \<noteq> ActorCall a"
  using fallback_trace [of e c] by auto

text \<open>
  C5 as stated fails twice. Without \<open>APIFY_TOKEN\<close> the tool throws to its caller before any
  tier. And when the actor, the page load and the HTTP request all fail, the error string
  holds the message of the HTTP request only: \<open>simpleScrapingFallback\<close> catches its own
  errors, so the \<open>catch\<close> that would join both messages is never entered.
\<close>

theorem searchFunc_raises_without_token:
  "searchFunc (failingEnv\<lparr>apifyToken := False\<rparr>) seattle
     = ([], Inl ''APIFY_TOKEN is required but not set in your environment variables'')
   \<and> loaderLoad failingEnv seattle = Inl ''Navigation timeout of 60000 ms exceeded''
   \<and> snd (searchFunc failingEnv seattle)
       = Inr \<lparr>count = 0, listings = [], note_field = None,
              error = Some ''Simple scraping fallback failed: Request failed with status code 403''\<rparr>"
  by (simp add: searchFunc_failingEnv failureResult_def) (simp add: searchFunc_def failingEnv_def tokenMessage_def)

text \<open>
  C5, amended. With \<open>APIFY_TOKEN\<close> set the search tool never throws: for every criteria
  and every behaviour of the collaborators it returns a result. When every tier fails
  (tier 1 is skipped or its actor fails, the page load throws or loads no document, the
  HTTP request fails) the result has count 0, no listings and a non-empty error string.
\<close>

theorem searchFunc_total_failure:
  "apifyToken e \<longrightarrow>
     (\<exists>tr r. searchFunc e c = (tr, Inr r))
     \<and> ((forceFallback c \<or> (\<exists>m1. actorCall e (actorFor (crit_source c)) c = Inl m1))
        \<and> (loaderLoad e c = Inr [] \<or> (\<exists>m2. loaderLoad e c = Inl m2))
        \<and> (\<exists>m5. httpGet e (location c) (crit_source c) = Inl m5) \<longrightarrow>
        (\<exists>tr msg. searchFunc e c
             = (tr, Inr \<lparr>count = 0, listings = [], note_field = None, error = Some msg\<rparr>)
           \<and> msg \<noteq> []))"
proof (intro impI conjI)
  assume "apifyToken e"
  then show "\<exists>tr r. searchFunc e c = (tr, Inr r)" by (rule searchFunc_returns)
next
  assume tok: "apifyToken e"
    and fail: "(forceFallback c \<or> (\<exists>m1. actorCall e (actorFor (crit_source c)) c = Inl m1))
        \<and> (loaderLoad e c = Inr [] \<or> (\<exists>m2. loaderLoad e c = Inl m2))
        \<and> (\<exists>m5. httpGet e (location c) (crit_source c) = Inl m5)"
  then obtain m5 where m5: "httpGet e (location c) (crit_source c) = Inl m5" by blast
  from fail have fb: "fallbackToPuppeteerWebBaseLoader e c
         = ([LoaderLoad, HttpGet], failureResult (''Simple scraping fallback failed: '' @ m5))"
    using fallback_all_fail [OF _ m5] by blast
  from fail have "forceFallback c \<or> (\<exists>m1. actorCall e (actorFor (crit_source c)) c = Inl m1)"
    by blast
  then have "\<exists>tr. searchFunc e c = (tr, Inr (failureResult (''Simple scraping fallback failed: '' @ m5)))"
    using tok fb by (auto simp add: searchFunc_def)
  then show "\<exists>tr msg. searchFunc e c
             = (tr, Inr \<lparr>count = 0, listings = [], note_field = None, error = Some msg\<rparr>)
           \<and> msg \<noteq> []"
    by (auto simp add: failureResult_def)
qed

theorem searchFunc_total_failure_witness:
  "apifyToken failingEnv
   \<and> (\<exists>m1. actorCall failingEnv (actorFor (crit_source seattle)) seattle = Inl m1)
   \<and> (\<exists>m2. loaderLoad failingEnv seattle = Inl m2)
   \<and> (\<exists>m5. httpGet failingEnv (location seattle) (crit_source seattle) = Inl m5)
   \<and> (\<exists>tr msg. searchFunc failingEnv seattle
          = (tr, Inr \<lparr>count = 0, listings = [], note_field = None, error = Some msg\<rparr>)
        \<and> msg \<noteq> [])"
  using searchFunc_total_failure [of failingEnv seattle]
  by (simp add: failingEnv_def)

text \<open>
  C6. With \<open>forceFallback\<close> set the search tool makes no actor call; with the token set it
  is the browser fallback, whose first call is the page load.
\<close>

theorem forceFallback_skips_tier1:
  "forceFallback c \<longrightarrow>
     (\<forall>ev \<in> set (fst (searchFunc e c)). \<forall>a. ev \<noteq> ActorCall a)
     \<and> (apifyToken e \<longrightarrow>
          searchFunc e c = (fst (fallbackToPuppeteerWebBaseLoader e c),
                            Inr (snd (fallbackToPuppeteerWebBaseLoader e c)))
          \<and> hd (fst (searchFunc e c)) = LoaderLoad)"
proof (intro impI conjI ballI allI)
  fix ev a
  assume "forceFallback c" and "ev \<in> set (fst (searchFunc e c))"
  then show "ev \<noteq> ActorCall a"
    using no_actor_in_fallback [of ev e c a]
    by (auto simp add: searchFunc_def split: prod.splits if_splits)
next
  assume f: "forceFallback c" and t: "apifyToken e"
  then show s: "searchFunc e c = (fst (fallbackToPuppeteerWebBaseLoader e c),
                            Inr (snd (fallbackToPuppeteerWebBaseLoader e c)))"
    by (simp add: searchFunc_def split: prod.splits)
  show "hd (fst (searchFunc e c)) = LoaderLoad"
    using fallback_trace [of e c] by (auto simp add: s)
qed

theorem forceFallback_skips_tier1_witness:
  "forceFallback (seattle\<lparr>forceFallback := True\<rparr>) \<and> apifyToken failingEnv
   \<and> fst (searchFunc failingEnv (seattle\<lparr>forceFallback := True\<rparr>)) = [LoaderLoad, HttpGet]
   \<and> hd (fst (searchFunc failingEnv (seattle\<lparr>forceFallback := True\<rparr>))) = LoaderLoad
   \<and> ActorCall ''maxcopell/zillow-scraper'' \<notin> set (fst (searchFunc failingEnv (seattle\<lparr>forceFallback := True\<rparr>)))"
proof -
  have tr: "fst (searchFunc failingEnv (seattle\<lparr>forceFallback := True\<rparr>)) = [LoaderLoad, HttpGet]"
    by (simp add: searchFunc_def failingEnv_def seattle_def
      fallbackToPuppeteerWebBaseLoader_def fallbackCatch_def simpleScrapingFallback_def)
  show ?thesis
    using forceFallback_skips_tier1 [of "seattle\<lparr>forceFallback := True\<rparr>" failingEnv]
    by (simp add: tr) (simp add: failingEnv_def)
qed

section \<open>Reschedule and sweep\<close>

lemma processMonitor_step:
  "processMonitor h search clock now (ms, p, u) mid
   = (ms(mid := afterPoll h search now (clock mid) mid (ms mid)),
      p + (if polled h search now mid (ms mid) then 1 else 0),
      u + (if hasNew h search now mid (ms mid) then 1 else 0))"
proof (cases "ms mid")
  case None
  then have "ms(mid := None) = ms" by (simp add: fun_upd_idem_iff)
  with None show ?thesis
    by (simp add: processMonitor_def afterPoll_def pollOutcome_def polled_def hasNew_def)
next
  case (Some cfg)
  then have "ms(mid := Some cfg) = ms" by (simp add: fun_upd_idem_iff)
  with Some show ?thesis
    by (auto simp add: processMonitor_def afterPoll_def pollOutcome_def polled_def hasNew_def
        previousListings_def Let_def split: sum.splits)
qed

lemma pollOutcome_rescheduled:
  "pollOutcome search now (Some (cfg\<lparr>lastChecked := Some now, lastResults := r, nextRun := n\<rparr>)) = None"
  by (simp add: pollOutcome_def shouldRunMonitor_just_checked)

lemma afterPoll_idem:
  "afterPoll h search now reading' mid (afterPoll h search now reading mid entry)
   = afterPoll h search now reading mid entry"
  by (auto simp add: afterPoll_def pollOutcome_rescheduled split: option.splits)

lemma hasNew_polled: "hasNew h search now mid entry \<Longrightarrow> polled h search now mid entry"
  by (auto simp add: hasNew_def polled_def split: option.splits)

lemma pollOutcome_absent: "pollOutcome search now None = None"
  by (simp add: pollOutcome_def)

lemma polled_afterPoll:
  "polled h search now mid (afterPoll h search now reading mid entry)
   \<longleftrightarrow> polled h search now mid entry \<and> setFails h mid"
  by (auto simp add: polled_def afterPoll_def pollOutcome_rescheduled pollOutcome_absent
      split: option.splits)

lemma hasNew_afterPoll:
  "hasNew h search now mid (afterPoll h search now reading mid entry)
   \<longleftrightarrow> hasNew h search now mid entry \<and> setFails h mid"
  by (auto simp add: hasNew_def afterPoll_def pollOutcome_rescheduled pollOutcome_absent
      split: option.splits)

lemma card_step:
  "card {i \<in> set (a # ids). Q i} = (if Q a then 1 else 0) + card ({i \<in> set ids. Q i} - {a})"
proof (cases "Q a")
  case True
  then have e: "{i \<in> set (a # ids). Q i} = insert a ({i \<in> set ids. Q i} - {a})" by auto
  have "card (insert a ({i \<in> set ids. Q i} - {a})) = Suc (card ({i \<in> set ids. Q i} - {a}))"
    by (rule card_insert_disjoint) simp_all
  with True show ?thesis by (simp only: e) simp
next
  case False
  then have "{i \<in> set (a # ids). Q i} = {i \<in> set ids. Q i} - {a}" by auto
  with False show ?thesis by simp
qed

lemma count_step:
  fixes P' :: "'a \<Rightarrow> bool"
  assumes "\<And>i. i \<noteq> a \<Longrightarrow> P' i = P i" and "P' a = (P a \<and> F a)"
  shows "(if P a then 1 else 0)
         + (length (filter (\<lambda>i. P' i \<and> F i) ids) + card {i \<in> set ids. P' i \<and> \<not> F i})
         = length (filter (\<lambda>i. P i \<and> F i) (a # ids)) + card {i \<in> set (a # ids). P i \<and> \<not> F i}"
proof -
  have e: "(P' i \<and> F i) = (P i \<and> F i)" for i
    using assms by (cases "i = a") auto
  have n: "(P' i \<and> \<not> F i) = ((P i \<and> \<not> F i) \<and> i \<noteq> a)" for i
    using assms by (cases "i = a") auto
  have s: "{i \<in> set ids. P' i \<and> \<not> F i} = {i \<in> set ids. P i \<and> \<not> F i} - {a}"
    by (simp only: n) auto
  show ?thesis
    by (simp only: e s card_step [of a ids "\<lambda>i. P i \<and> \<not> F i"]) simp
qed

lemma sweep_fold:
  "foldl (processMonitor h search clock now) (ms, p, u) ids
   = ((\<lambda>i. if i \<in> set ids then afterPoll h search now (clock i) i (ms i) else ms i),
      p + (length (filter (\<lambda>i. polled h search now i (ms i) \<and> setFails h i) ids)
           + card {i \<in> set ids. polled h search now i (ms i) \<and> \<not> setFails h i}),
      u + (length (filter (\<lambda>i. hasNew h search now i (ms i) \<and> setFails h i) ids)
           + card {i \<in> set ids. hasNew h search now i (ms i) \<and> \<not> setFails h i}))"
proof (induction ids arbitrary: ms p u)
  case Nil
  then show ?case by simp
next
  case (Cons a ids)
  let ?ms = "ms(a := afterPoll h search now (clock a) a (ms a))"
  have m: "(\<lambda>i. if i \<in> set ids then afterPoll h search now (clock i) i (?ms i) else ?ms i)
           = (\<lambda>i. if i \<in> set (a # ids) then afterPoll h search now (clock i) i (ms i) else ms i)"
    by (auto simp add: fun_eq_iff afterPoll_idem)
  have c1: "(if polled h search now a (ms a) then 1 else 0)
         + (length (filter (\<lambda>i. polled h search now i (?ms i) \<and> setFails h i) ids)
            + card {i \<in> set ids. polled h search now i (?ms i) \<and> \<not> setFails h i})
         = length (filter (\<lambda>i. polled h search now i (ms i) \<and> setFails h i) (a # ids))
           + card {i \<in> set (a # ids). polled h search now i (ms i) \<and> \<not> setFails h i}"
    by (rule count_step) (simp_all add: polled_afterPoll)
  have c2: "(if hasNew h search now a (ms a) then 1 else 0)
         + (length (filter (\<lambda>i. hasNew h search now i (?ms i) \<and> setFails h i) ids)
            + card {i \<in> set ids. hasNew h search now i (?ms i) \<and> \<not> setFails h i})
         = length (filter (\<lambda>i. hasNew h search now i (ms i) \<and> setFails h i) (a # ids))
           + card {i \<in> set (a # ids). hasNew h search now i (ms i) \<and> \<not> setFails h i}"
    by (rule count_step) (simp_all add: hasNew_afterPoll)
  show ?case
    by (simp only: foldl_Cons processMonitor_step Cons.IH m add.assoc c1 c2)
qed

lemma sweep_store:
  "fst (foldl (processMonitor h search clock now) (ms, p, u) ids)
   = (\<lambda>i. if i \<in> set ids then afterPoll h search now (clock i) i (ms i) else ms i)"
  by (simp only: sweep_fold fst_conv)

lemma monitorLoop_counts:
  "monitorLoop h search clock now ms ids
   = ((\<lambda>i. if i \<in> set ids then afterPoll h search now (clock i) i (ms i) else ms i),
      length (filter (\<lambda>i. polled h search now i (ms i) \<and> setFails h i) ids)
        + card {i \<in> set ids. polled h search now i (ms i) \<and> \<not> setFails h i},
      length (filter (\<lambda>i. hasNew h search now i (ms i) \<and> setFails h i) ids)
        + card {i \<in> set ids. hasNew h search now i (ms i) \<and> \<not> setFails h i})"
  by (simp add: monitorLoop_def sweep_fold)

lemma updated_le_processed:
  "length (filter (\<lambda>i. hasNew h search now i (ms i) \<and> setFails h i) ids)
     + card {i \<in> set ids. hasNew h search now i (ms i) \<and> \<not> setFails h i}
   \<le> length (filter (\<lambda>i. polled h search now i (ms i) \<and> setFails h i) ids)
     + card {i \<in> set ids. polled h search now i (ms i) \<and> \<not> setFails h i}"
proof -
  have "filter (\<lambda>i. hasNew h search now i (ms i) \<and> setFails h i) ids
        = filter (\<lambda>i. hasNew h search now i (ms i))
            (filter (\<lambda>i. polled h search now i (ms i) \<and> setFails h i) ids)"
    using hasNew_polled by (auto intro: filter_cong)
  then have 1: "length (filter (\<lambda>i. hasNew h search now i (ms i) \<and> setFails h i) ids)
        \<le> length (filter (\<lambda>i. polled h search now i (ms i) \<and> setFails h i) ids)"
    by (simp only: length_filter_le)
  have "{i \<in> set ids. hasNew h search now i (ms i) \<and> \<not> setFails h i}
        \<subseteq> {i \<in> set ids. polled h search now i (ms i) \<and> \<not> setFails h i}"
    using hasNew_polled by blast
  then have 2: "card {i \<in> set ids. hasNew h search now i (ms i) \<and> \<not> setFails h i}
        \<le> card {i \<in> set ids. polled h search now i (ms i) \<and> \<not> setFails h i}"
    by (intro card_mono) simp_all
  from 1 2 show ?thesis by (rule add_mono)
qed

lemma processAllMonitors_store:
  assumes "initError h = None" and "openError h = None"
    and "(case monitorsList st of None \<Rightarrow> [] | Some l \<Rightarrow> l) = ids"
  shows "monitors (fst (processAllMonitors h search clock st now)) i
         = (if i \<in> set ids then afterPoll h search now (clock i) i (monitors st i) else monitors st i)"
proof (cases "ids = []")
  case True
  with assms show ?thesis by (simp add: processAllMonitors_def)
next
  case False
  have "fst (monitorLoop h search clock now (monitors st) ids)
        = (\<lambda>i. if i \<in> set ids then afterPoll h search now (clock i) i (monitors st i) else monitors st i)"
    by (simp add: monitorLoop_def sweep_store)
  with False assms show ?thesis
    by (cases "monitorLoop h search clock now (monitors st) ids")
       (simp add: processAllMonitors_def)
qed

lemma processAllMonitors_returns:
  assumes "initError h = None" and "openError h = None" and "\<not> exitEndsProcess h"
    and "(case monitorsList st of None \<Rightarrow> [] | Some l \<Rightarrow> l) = ids"
  shows "snd (processAllMonitors h search clock st now)
         = Returned \<lparr>processed = length (filter (\<lambda>i. polled h search now i (monitors st i) \<and> setFails h i) ids)
                        + card {i \<in> set ids. polled h search now i (monitors st i) \<and> \<not> setFails h i},
                     updated = length (filter (\<lambda>i. hasNew h search now i (monitors st i) \<and> setFails h i) ids)
                        + card {i \<in> set ids. hasNew h search now i (monitors st i) \<and> \<not> setFails h i}\<rparr>"
proof (cases "ids = []")
  case True
  with assms show ?thesis by (simp add: processAllMonitors_def)
next
  case False
  with assms show ?thesis
    by (simp add: processAllMonitors_def monitorLoop_counts)
qed

lemma processAllMonitors_exits:
  "initError h = None \<Longrightarrow> exitEndsProcess h \<Longrightarrow>
   snd (processAllMonitors h search clock st now) = ProcessExited"
  by (simp add: processAllMonitors_def split: option.splits prod.splits)

lemma constant_offset:
  "(\<forall>t. offsetOfUtc h t = k) \<Longrightarrow> (\<forall>t. offsetOfLocal h t = k) \<Longrightarrow>
   utcTime h (localTime h t + d) = t + d"
  by (simp add: utcTime_def localTime_def)

text \<open>The sample store, searches and hosts, evaluated.\<close>

lemma flakySearch_m1:
  "flakySearch (monitorCriteria (newMonitor ''m1'' (Some ''realtime''))) = Inr pageResult"
  by (simp add: flakySearch_def monitorCriteria_def newMonitor_def searchFunc_def patternPageEnv_def
      threeFiveEnv_def patternEnv_def failingEnv_def fallbackToPuppeteerWebBaseLoader_def
      extractListingsWithLLM_def pageResult_def)

lemma flakySearch_m2:
  "flakySearch (monitorCriteria ((newMonitor ''m2'' (Some ''daily''))\<lparr>mon_location := ''Nowhere''\<rparr>))
   = Inl ''search failed''"
  by (simp add: flakySearch_def monitorCriteria_def newMonitor_def)

lemma failingSearch_result:
  "failingSearch c
   = Inr (failureResult ''Simple scraping fallback failed: Request failed with status code 403'')"
proof -
  have fb: "fallbackToPuppeteerWebBaseLoader failingEnv c
     = ([LoaderLoad, HttpGet],
        failureResult ''Simple scraping fallback failed: Request failed with status code 403'')"
    using fallback_all_fail [of failingEnv c "''Request failed with status code 403''"]
    by (simp add: failingEnv_def)
  have tok: "apifyToken failingEnv" by (simp add: failingEnv_def)
  have act: "actorCall failingEnv a c = Inl ''Actor run failed''" for a
    by (simp add: failingEnv_def)
  show ?thesis
    by (simp add: failingSearch_def searchFunc_def fb tok act)
qed

lemma pageResult_length: "length (listings pageResult) = 3"
  by (simp add: pageResult_def patternListings_length maxEntries_def patternPageEnv_def
      threeFiveEnv_def patternEnv_def failingEnv_def)

lemma sample_eligible:
  "shouldRunMonitor (newMonitor ''m1'' (Some ''realtime'')) 1000000"
  "shouldRunMonitor ((newMonitor ''m2'' (Some ''daily''))\<lparr>mon_location := ''Nowhere''\<rparr>) 1000000"
  by (simp_all add: shouldRunMonitor_def newMonitor_def)

lemma sample_list: "(case monitorsList sampleStore of None \<Rightarrow> [] | Some l \<Rightarrow> l) = [''m1'', ''m2'']"
  by (simp add: sampleStore_def)

lemma sample_entries:
  "monitors sampleStore ''m1'' = Some (newMonitor ''m1'' (Some ''realtime''))"
  "monitors sampleStore ''m2'' = Some ((newMonitor ''m2'' (Some ''daily''))\<lparr>mon_location := ''Nowhere''\<rparr>)"
  "monitors sampleStore ''m3'' = None"
  by (simp_all add: sampleStore_def)

lemma utcHost_fields:
  "initError utcHost = None" "openError utcHost = None" "\<not> getFails utcHost mid"
  "\<not> setFails utcHost mid" "exitEndsProcess utcHost" "offsetOfUtc utcHost t = 0"
  "offsetOfLocal utcHost t = 0"
  by (simp_all add: utcHost_def)

lemma returningHost_fields:
  "initError returningHost = None" "openError returningHost = None" "\<not> getFails returningHost mid"
  "\<not> setFails returningHost mid" "\<not> exitEndsProcess returningHost"
  by (simp_all add: returningHost_def utcHost_def)

lemma getNextRunTime_utcHost_realtime: "getNextRunTime utcHost (Some ''realtime'') t = t + 900000"
  by (simp add: getNextRunTime_def utcTime_def localTime_def utcHost_def)

lemma writeFailingHost_fields:
  "initError writeFailingHost = None" "openError writeFailingHost = None"
  "\<not> getFails writeFailingHost mid" "setFails writeFailingHost mid"
  "\<not> exitEndsProcess writeFailingHost"
  by (simp_all add: writeFailingHost_def returningHost_def utcHost_def)

lemma repeated_list: "(case monitorsList repeatedStore of None \<Rightarrow> [] | Some l \<Rightarrow> l) = [''m1'', ''m1'']"
  by (simp add: repeatedStore_def)

lemma repeated_entries: "monitors repeatedStore = monitors sampleStore"
  by (simp add: repeatedStore_def)

lemma pollOutcome_flaky_m1: "pollOutcome flakySearch 1000000 (monitors sampleStore ''m1'') = Some pageResult"
  by (simp add: sample_entries pollOutcome_def sample_eligible flakySearch_m1)

lemma pollOutcome_flaky_m2: "pollOutcome flakySearch 1000000 (monitors sampleStore ''m2'') = None"
  by (simp add: sample_entries pollOutcome_def sample_eligible flakySearch_m2)

lemma hasNew_flaky_m1:
  "\<not> getFails h ''m1'' \<Longrightarrow> hasNew h flakySearch 1000000 ''m1'' (monitors sampleStore ''m1'')"
proof -
  assume g: "\<not> getFails h ''m1''"
  have pl: "previousListings (newMonitor ''m1'' (Some ''realtime'')) = []"
    by (simp add: previousListings_def newMonitor_def)
  have ne: "listings pageResult \<noteq> []" using pageResult_length by auto
  show ?thesis
    using pollOutcome_flaky_m1 ne g
    by (simp add: hasNew_def sample_entries pl findNewListings_empty)
qed

text \<open>
  C7 as stated fails in three ways. \<open>nextRun\<close> is counted from the clock reading that
  \<open>getNextRunTime\<close> takes after the poll, not from the sweep's \<open>now\<close> that \<open>lastChecked\<close>
  gets: the input is a sweep at 1000000 ms whose poll of a realtime monitor is over 5
  seconds later. The interval is added to the local time: on a host on New York time a
  daily monitor polled at 06:00 UTC on 8 March 2026 is due 23 hours later. And a search in
  which every tier fails does not throw: it returns a result with count 0 and an error
  string, and the sweep stores it and sets \<open>lastChecked\<close>.
\<close>

theorem reschedule_as_stated_fails:
  "map_option nextRun
     (monitors (fst (processAllMonitors utcHost flakySearch (\<lambda>m. 1005000) sampleStore 1000000)) ''m1'')
     = Some (Some (1005000 + 15 * 60 * 1000))
   \<and> map_option lastChecked
     (monitors (fst (processAllMonitors utcHost flakySearch (\<lambda>m. 1005000) sampleStore 1000000)) ''m1'')
     = Some (Some 1000000)
   \<and> (1005000 + 15 * 60 * 1000 :: int) \<noteq> 1000000 + 15 * 60 * 1000
   \<and> getNextRunTime newYorkHost (Some ''daily'') 1772949600000 = 1772949600000 + 23 * 60 * 60 * 1000
   \<and> failingSearch (monitorCriteria (newMonitor ''m1'' (Some ''realtime'')))
       = Inr \<lparr>count = 0, listings = [], note_field = None,
              error = Some ''Simple scraping fallback failed: Request failed with status code 403''\<rparr>
   \<and> map_option lastChecked
     (monitors (fst (processAllMonitors utcHost failingSearch (\<lambda>m. 1005000) sampleStore 1000000)) ''m1'')
     = Some (Some 1000000)"
proof -
  have 1: "monitors (fst (processAllMonitors utcHost flakySearch (\<lambda>m. 1005000) sampleStore 1000000)) ''m1''
      = Some ((newMonitor ''m1'' (Some ''realtime''))
               \<lparr>lastChecked := Some 1000000, lastResults := Some pageResult, nextRun := Some 1905000\<rparr>)"
    by (simp add: processAllMonitors_store [OF utcHost_fields(1,2) sample_list] sample_entries
        afterPoll_def pollOutcome_def sample_eligible flakySearch_m1 utcHost_fields
        getNextRunTime_utcHost_realtime)
       (simp add: newMonitor_def getNextRunTime_utcHost_realtime)
  have 2: "monitors (fst (processAllMonitors utcHost failingSearch (\<lambda>m. 1005000) sampleStore 1000000)) ''m1''
      = Some ((newMonitor ''m1'' (Some ''realtime''))
               \<lparr>lastChecked := Some 1000000,
                lastResults := Some (failureResult ''Simple scraping fallback failed: Request failed with status code 403''),
                nextRun := Some 1905000\<rparr>)"
    by (simp add: processAllMonitors_store [OF utcHost_fields(1,2) sample_list] sample_entries
        afterPoll_def pollOutcome_def sample_eligible failingSearch_result utcHost_fields
        getNextRunTime_utcHost_realtime)
       (simp add: newMonitor_def getNextRunTime_utcHost_realtime)
  have 3: "getNextRunTime newYorkHost (Some ''daily'') 1772949600000 = 1772949600000 + 23 * 60 * 60 * 1000"
    by (simp add: getNextRunTime_def utcTime_def localTime_def newYorkHost_def utcHost_def)
  show ?thesis
    by (simp add: 1 2 3 failingSearch_result failureResult_def)
qed

text \<open>
  C7, amended. For a monitor of the list that is in the store and eligible, in a sweep
  that got past \<open>Actor.init()\<close> and the reading of the monitors list: when its entry is
  read, its search returns a result (also one with count 0 and an error string) and the
  write succeeds, the sweep stores \<open>lastChecked\<close> = the sweep's \<open>now\<close>, \<open>lastResults\<close> =
  that result and \<open>nextRun\<close> = the local time of the clock reading taken after the poll,
  moved forward by 15 minutes for \<open>realtime\<close>, 7 days for \<open>weekly\<close> and 1 day for \<open>daily\<close>
  or any other frequency, and read back as an instant; on a host whose offset from UTC
  is constant that is the clock reading plus the interval. When the search throws or the
  read or the write of the entry fails, the stored monitor is unchanged and it is
  eligible at every later time.
\<close>

theorem reschedule_after_poll:
  assumes "initError h = None" and "openError h = None"
    and "(case monitorsList st of None \<Rightarrow> [] | Some l \<Rightarrow> l) = ids" and "mid \<in> set ids"
    and "monitors st mid = Some cfg" and "shouldRunMonitor cfg now"
  shows "(search (monitorCriteria cfg) = Inr res \<and> \<not> getFails h mid \<and> \<not> setFails h mid \<longrightarrow>
            monitors (fst (processAllMonitors h search clock st now)) mid
            = Some (cfg\<lparr>lastChecked := Some now, lastResults := Some res,
                        nextRun := Some (utcTime h (localTime h (clock mid)
                          + (if frequency cfg = Some ''realtime'' then 15 * 60 * 1000
                             else if frequency cfg = Some ''weekly'' then 7 * 24 * 60 * 60 * 1000
                             else 24 * 60 * 60 * 1000)))\<rparr>)
            \<and> ((\<forall>t. offsetOfUtc h t = k \<and> offsetOfLocal h t = k) \<longrightarrow>
                 utcTime h (localTime h (clock mid)
                          + (if frequency cfg = Some ''realtime'' then 15 * 60 * 1000
                             else if frequency cfg = Some ''weekly'' then 7 * 24 * 60 * 60 * 1000
                             else 24 * 60 * 60 * 1000))
                 = clock mid
                   + (if frequency cfg = Some ''realtime'' then 15 * 60 * 1000
                      else if frequency cfg = Some ''weekly'' then 7 * 24 * 60 * 60 * 1000
                      else 24 * 60 * 60 * 1000)))
         \<and> (search (monitorCriteria cfg) = Inl err \<or> getFails h mid \<or> setFails h mid \<longrightarrow>
              monitors (fst (processAllMonitors h search clock st now)) mid = Some cfg
              \<and> (\<forall>now'. now \<le> now' \<longrightarrow> shouldRunMonitor cfg now'))"
proof (intro conjI impI allI)
  assume "search (monitorCriteria cfg) = Inr res \<and> \<not> getFails h mid \<and> \<not> setFails h mid"
  with assms show "monitors (fst (processAllMonitors h search clock st now)) mid
            = Some (cfg\<lparr>lastChecked := Some now, lastResults := Some res,
                        nextRun := Some (utcTime h (localTime h (clock mid)
                          + (if frequency cfg = Some ''realtime'' then 15 * 60 * 1000
                             else if frequency cfg = Some ''weekly'' then 7 * 24 * 60 * 60 * 1000
                             else 24 * 60 * 60 * 1000)))\<rparr>)"
    by (simp add: processAllMonitors_store [OF assms(1,2,3)] afterPoll_def pollOutcome_def
        getNextRunTime_def)
next
  assume "\<forall>t. offsetOfUtc h t = k \<and> offsetOfLocal h t = k"
  then show "utcTime h (localTime h (clock mid)
                          + (if frequency cfg = Some ''realtime'' then 15 * 60 * 1000
                             else if frequency cfg = Some ''weekly'' then 7 * 24 * 60 * 60 * 1000
                             else 24 * 60 * 60 * 1000))
                 = clock mid
                   + (if frequency cfg = Some ''realtime'' then 15 * 60 * 1000
                      else if frequency cfg = Some ''weekly'' then 7 * 24 * 60 * 60 * 1000
                      else 24 * 60 * 60 * 1000)"
    by (intro constant_offset) auto
next
  assume "search (monitorCriteria cfg) = Inl err \<or> getFails h mid \<or> setFails h mid"
  with assms show "monitors (fst (processAllMonitors h search clock st now)) mid = Some cfg"
    by (auto simp add: processAllMonitors_store [OF assms(1,2,3)] afterPoll_def pollOutcome_def)
next
  fix now' assume "now \<le> now'"
  with assms(6) show "shouldRunMonitor cfg now'" by (rule shouldRunMonitor_mono)
qed

theorem reschedule_after_poll_witness:
  "monitors (fst (processAllMonitors utcHost flakySearch (\<lambda>m. 1005000) sampleStore 1000000)) ''m1''
     = Some ((newMonitor ''m1'' (Some ''realtime''))
               \<lparr>lastChecked := Some 1000000, lastResults := Some pageResult, nextRun := Some 1905000\<rparr>)
   \<and> monitors (fst (processAllMonitors utcHost flakySearch (\<lambda>m. 1005000) sampleStore 1000000)) ''m2''
     = Some ((newMonitor ''m2'' (Some ''daily''))\<lparr>mon_location := ''Nowhere''\<rparr>)
   \<and> shouldRunMonitor ((newMonitor ''m2'' (Some ''daily''))\<lparr>mon_location := ''Nowhere''\<rparr>) 2000000"
proof -
  have f: "frequency (newMonitor ''m1'' (Some ''realtime'')) = Some ''realtime''"
    by (simp add: newMonitor_def)
  have m1: "''m1'' \<in> set [''m1'', ''m2'']" and m2: "''m2'' \<in> set [''m1'', ''m2'']" by simp_all
  from reschedule_after_poll [OF utcHost_fields(1,2) sample_list m1 sample_entries(1) sample_eligible(1),
      of flakySearch pageResult "\<lambda>m. 1005000" 0 "''x''"]
    reschedule_after_poll [OF utcHost_fields(1,2) sample_list m2 sample_entries(2) sample_eligible(2),
      of flakySearch pageResult "\<lambda>m. 1005000" 0 "''search failed''"]
  show ?thesis
    by (simp add: flakySearch_m1 flakySearch_m2 f utcHost_fields)
qed

text \<open>
  C8 as stated fails for what \<open>processed\<close> counts and for the return. A monitor whose
  search found nothing because every tier failed is counted as processed: the search
  tool does not throw then, it returns a result with count 0 and an error string. A
  monitor whose write to the store fails is counted each time the list names it, the
  counters being raised before the write. And with an \<open>Actor.exit()\<close> that ends the
  process, the call does not come back to its caller.
\<close>

theorem sweep_as_stated_fails:
  "failingSearch (monitorCriteria (newMonitor ''m1'' (Some ''realtime'')))
     = Inr \<lparr>count = 0, listings = [], note_field = None,
            error = Some ''Simple scraping fallback failed: Request failed with status code 403''\<rparr>
   \<and> snd (processAllMonitors returningHost failingSearch (\<lambda>m. 1005000) sampleStore 1000000)
       = Returned \<lparr>processed = 2, updated = 0\<rparr>
   \<and> snd (processAllMonitors writeFailingHost flakySearch (\<lambda>m. 1005000) repeatedStore 1000000)
       = Returned \<lparr>processed = 2, updated = 2\<rparr>
   \<and> snd (processAllMonitors utcHost flakySearch (\<lambda>m. 1005000) sampleStore 1000000) = ProcessExited"
proof -
  have p: "polled returningHost failingSearch 1000000 i (monitors sampleStore i)" if "i \<in> set [''m1'', ''m2'']" for i
    using that
    by (auto simp add: polled_def returningHost_fields sample_entries pollOutcome_def sample_eligible
        failingSearch_result)
  have n: "\<not> hasNew returningHost failingSearch 1000000 i (monitors sampleStore i)" for i
    by (auto simp add: hasNew_def pollOutcome_def failingSearch_result failureResult_def
        findNewListings_def split: option.splits)
  have fp: "filter (\<lambda>i. polled returningHost failingSearch 1000000 i (monitors sampleStore i)
                        \<and> setFails returningHost i) [''m1'', ''m2''] = []"
    by (simp add: returningHost_fields)
  have fn: "filter (\<lambda>i. hasNew returningHost failingSearch 1000000 i (monitors sampleStore i)
                        \<and> setFails returningHost i) [''m1'', ''m2''] = []"
    by (simp add: returningHost_fields)
  have sp: "{i \<in> set [''m1'', ''m2'']. polled returningHost failingSearch 1000000 i (monitors sampleStore i)
                        \<and> \<not> setFails returningHost i} = {''m1'', ''m2''}"
    using p by (auto simp add: returningHost_fields)
  have sn: "{i \<in> set [''m1'', ''m2'']. hasNew returningHost failingSearch 1000000 i (monitors sampleStore i)
                        \<and> \<not> setFails returningHost i} = {}"
    using n by auto
  have 1: "snd (processAllMonitors returningHost failingSearch (\<lambda>m. 1005000) sampleStore 1000000)
       = Returned \<lparr>processed = 2, updated = 0\<rparr>"
    using processAllMonitors_returns [OF returningHost_fields(1,2,5) sample_list,
        of failingSearch "\<lambda>m. 1005000" 1000000, unfolded fp fn sp sn]
    by simp
  have h1: "hasNew writeFailingHost flakySearch 1000000 ''m1'' (monitors sampleStore ''m1'')"
    by (rule hasNew_flaky_m1) (simp add: writeFailingHost_fields)
  have q1: "polled writeFailingHost flakySearch 1000000 ''m1'' (monitors sampleStore ''m1'')"
    using h1 by (rule hasNew_polled)
  have gp: "filter (\<lambda>i. polled writeFailingHost flakySearch 1000000 i (monitors repeatedStore i)
                        \<and> setFails writeFailingHost i) [''m1'', ''m1''] = [''m1'', ''m1'']"
    using q1 by (simp add: repeated_entries writeFailingHost_fields)
  have gn: "filter (\<lambda>i. hasNew writeFailingHost flakySearch 1000000 i (monitors repeatedStore i)
                        \<and> setFails writeFailingHost i) [''m1'', ''m1''] = [''m1'', ''m1'']"
    using h1 by (simp add: repeated_entries writeFailingHost_fields)
  have tp: "{i \<in> set [''m1'', ''m1'']. polled writeFailingHost flakySearch 1000000 i (monitors repeatedStore i)
                        \<and> \<not> setFails writeFailingHost i} = {}"
    by (simp add: writeFailingHost_fields)
  have tn: "{i \<in> set [''m1'', ''m1'']. hasNew writeFailingHost flakySearch 1000000 i (monitors repeatedStore i)
                        \<and> \<not> setFails writeFailingHost i} = {}"
    by (simp add: writeFailingHost_fields)
  have 2: "snd (processAllMonitors writeFailingHost flakySearch (\<lambda>m. 1005000) repeatedStore 1000000)
       = Returned \<lparr>processed = 2, updated = 2\<rparr>"
    using processAllMonitors_returns [OF writeFailingHost_fields(1,2,5) repeated_list,
        of flakySearch "\<lambda>m. 1005000" 1000000, unfolded gp gn tp tn]
    by simp
  have 3: "snd (processAllMonitors utcHost flakySearch (\<lambda>m. 1005000) sampleStore 1000000) = ProcessExited"
    by (rule processAllMonitors_exits) (simp_all add: utcHost_fields)
  show ?thesis by (simp add: 1 2 3 failingSearch_result failureResult_def)
qed

text \<open>
  C8, amended. In a sweep that got past \<open>Actor.init()\<close> and the reading of the monitors
  list, the loop goes through every id of the list and ends with the two counters:
  \<open>processed\<close> is the number of monitors of the list whose entry was read, that were
  eligible and whose search returned a result (also one with count 0 and an error
  string), \<open>updated\<close> the number of those whose novelty diff was not empty, so
  \<open>updated \<le> processed\<close>; a monitor counts once, or once each time the list names it
  when its write to the store fails. What the sweep leaves in the store for a monitor
  depends on that monitor's entry, search and store calls alone: a monitor whose read,
  search or write throws keeps its entry, and neither stops the sweep nor touches
  another monitor. Where \<open>Actor.exit()\<close> hands control back, these counters are what the
  call returns.
\<close>

theorem sweep_counts:
  assumes "initError h = None" and "openError h = None"
    and "(case monitorsList st of None \<Rightarrow> [] | Some l \<Rightarrow> l) = ids"
  shows "monitorLoop h search clock now (monitors st) ids
           = ((\<lambda>i. if i \<in> set ids then afterPoll h search now (clock i) i (monitors st i)
                    else monitors st i),
              length (filter (\<lambda>i. polled h search now i (monitors st i) \<and> setFails h i) ids)
                + card {i \<in> set ids. polled h search now i (monitors st i) \<and> \<not> setFails h i},
              length (filter (\<lambda>i. hasNew h search now i (monitors st i) \<and> setFails h i) ids)
                + card {i \<in> set ids. hasNew h search now i (monitors st i) \<and> \<not> setFails h i})
         \<and> length (filter (\<lambda>i. hasNew h search now i (monitors st i) \<and> setFails h i) ids)
                + card {i \<in> set ids. hasNew h search now i (monitors st i) \<and> \<not> setFails h i}
             \<le> length (filter (\<lambda>i. polled h search now i (monitors st i) \<and> setFails h i) ids)
                + card {i \<in> set ids. polled h search now i (monitors st i) \<and> \<not> setFails h i}
         \<and> (\<forall>i. monitors (fst (processAllMonitors h search clock st now)) i
              = (if i \<in> set ids then afterPoll h search now (clock i) i (monitors st i)
                 else monitors st i))
         \<and> (\<not> exitEndsProcess h \<longrightarrow>
              snd (processAllMonitors h search clock st now)
              = Returned
                  \<lparr>processed =
                     length (filter (\<lambda>i. polled h search now i (monitors st i) \<and> setFails h i) ids)
                     + card {i \<in> set ids. polled h search now i (monitors st i) \<and> \<not> setFails h i},
                   updated =
                     length (filter (\<lambda>i. hasNew h search now i (monitors st i) \<and> setFails h i) ids)
                     + card {i \<in> set ids. hasNew h search now i (monitors st i) \<and> \<not> setFails h i}\<rparr>)"
proof (intro conjI allI impI)
  show "monitorLoop h search clock now (monitors st) ids
           = ((\<lambda>i. if i \<in> set ids then afterPoll h search now (clock i) i (monitors st i)
                    else monitors st i),
              length (filter (\<lambda>i. polled h search now i (monitors st i) \<and> setFails h i) ids)
                + card {i \<in> set ids. polled h search now i (monitors st i) \<and> \<not> setFails h i},
              length (filter (\<lambda>i. hasNew h search now i (monitors st i) \<and> setFails h i) ids)
                + card {i \<in> set ids. hasNew h search now i (monitors st i) \<and> \<not> setFails h i})"
    by (rule monitorLoop_counts)
next
  show "length (filter (\<lambda>i. hasNew h search now i (monitors st i) \<and> setFails h i) ids)
                + card {i \<in> set ids. hasNew h search now i (monitors st i) \<and> \<not> setFails h i}
             \<le> length (filter (\<lambda>i. polled h search now i (monitors st i) \<and> setFails h i) ids)
                + card {i \<in> set ids. polled h search now i (monitors st i) \<and> \<not> setFails h i}"
    by (rule updated_le_processed)
next
  fix i
  show "monitors (fst (processAllMonitors h search clock st now)) i
              = (if i \<in> set ids then afterPoll h search now (clock i) i (monitors st i)
                 else monitors st i)"
    by (rule processAllMonitors_store [OF assms(1,2,3)])
next
  assume "\<not> exitEndsProcess h"
  with assms show "snd (processAllMonitors h search clock st now)
              = Returned
                  \<lparr>processed =
                     length (filter (\<lambda>i. polled h search now i (monitors st i) \<and> setFails h i) ids)
                     + card {i \<in> set ids. polled h search now i (monitors st i) \<and> \<not> setFails h i},
                   updated =
                     length (filter (\<lambda>i. hasNew h search now i (monitors st i) \<and> setFails h i) ids)
                     + card {i \<in> set ids. hasNew h search now i (monitors st i) \<and> \<not> setFails h i}\<rparr>"
    by (intro processAllMonitors_returns)
qed

theorem sweep_counts_witness:
  "(case monitorsList sampleStore of None \<Rightarrow> [] | Some l \<Rightarrow> l) = [''m1'', ''m2'']
   \<and> \<not> exitEndsProcess returningHost
   \<and> monitorLoop returningHost flakySearch (\<lambda>m. 1005000) 1000000 (monitors sampleStore) [''m1'', ''m2'']
       = ((\<lambda>i. if i \<in> set [''m1'', ''m2'']
                then afterPoll returningHost flakySearch 1000000 1005000 i (monitors sampleStore i)
                else monitors sampleStore i), 1, 1)
   \<and> snd (processAllMonitors returningHost flakySearch (\<lambda>m. 1005000) sampleStore 1000000)
       = Returned \<lparr>processed = 1, updated = 1\<rparr>
   \<and> monitors (fst (processAllMonitors returningHost flakySearch (\<lambda>m. 1005000) sampleStore 1000000)) ''m2''
       = monitors sampleStore ''m2''
   \<and> monitors (fst (processAllMonitors returningHost flakySearch (\<lambda>m. 1005000) sampleStore 1000000)) ''m3''
       = None"
proof -
  have h1: "hasNew returningHost flakySearch 1000000 ''m1'' (monitors sampleStore ''m1'')"
    by (rule hasNew_flaky_m1) (simp add: returningHost_fields)
  have q1: "polled returningHost flakySearch 1000000 ''m1'' (monitors sampleStore ''m1'')"
    using h1 by (rule hasNew_polled)
  have q2: "\<not> polled returningHost flakySearch 1000000 ''m2'' (monitors sampleStore ''m2'')"
    using pollOutcome_flaky_m2 by (simp add: polled_def)
  have h2: "\<not> hasNew returningHost flakySearch 1000000 ''m2'' (monitors sampleStore ''m2'')"
    using q2 hasNew_polled by blast
  have fp: "filter (\<lambda>i. polled returningHost flakySearch 1000000 i (monitors sampleStore i)
                        \<and> setFails returningHost i) [''m1'', ''m2''] = []"
    by (simp add: returningHost_fields)
  have fn: "filter (\<lambda>i. hasNew returningHost flakySearch 1000000 i (monitors sampleStore i)
                        \<and> setFails returningHost i) [''m1'', ''m2''] = []"
    by (simp add: returningHost_fields)
  have sp: "{i \<in> set [''m1'', ''m2'']. polled returningHost flakySearch 1000000 i (monitors sampleStore i)
                        \<and> \<not> setFails returningHost i} = {''m1''}"
    using q1 q2 by (auto simp add: returningHost_fields)
  have sn: "{i \<in> set [''m1'', ''m2'']. hasNew returningHost flakySearch 1000000 i (monitors sampleStore i)
                        \<and> \<not> setFails returningHost i} = {''m1''}"
    using h1 h2 by (auto simp add: returningHost_fields)
  have a2: "afterPoll returningHost flakySearch 1000000 1005000 ''m2'' (monitors sampleStore ''m2'')
            = monitors sampleStore ''m2''"
    using pollOutcome_flaky_m2 by (simp add: afterPoll_def sample_entries)
  note s = sweep_counts [OF returningHost_fields(1,2) sample_list,
        of flakySearch "\<lambda>m. 1005000" 1000000, unfolded fp fn sp sn]
  from s have 1: "monitorLoop returningHost flakySearch (\<lambda>m. 1005000) 1000000 (monitors sampleStore) [''m1'', ''m2'']
       = ((\<lambda>i. if i \<in> set [''m1'', ''m2'']
                then afterPoll returningHost flakySearch 1000000 1005000 i (monitors sampleStore i)
                else monitors sampleStore i), 1, 1)"
    by simp
  from s have 2: "snd (processAllMonitors returningHost flakySearch (\<lambda>m. 1005000) sampleStore 1000000)
       = Returned \<lparr>processed = 1, updated = 1\<rparr>"
    by (simp add: returningHost_fields)
  from s have 3: "monitors (fst (processAllMonitors returningHost flakySearch (\<lambda>m. 1005000) sampleStore 1000000)) ''m2''
       = monitors sampleStore ''m2''"
    by (simp add: a2)
  from s have 4: "monitors (fst (processAllMonitors returningHost flakySearch (\<lambda>m. 1005000) sampleStore 1000000)) ''m3''
       = None"
    by (simp add: sample_entries)
  show ?thesis using 1 2 3 4 sample_list returningHost_fields(5) by blast
qed

section \<open>Model extraction\<close>

lemma splitAtFirst_sound: "splitAtFirst pat s = Some (b, a) \<Longrightarrow> s = b @ pat @ a"
proof (induction s arbitrary: b)
  case Nil
  then show ?case by (simp split: if_splits)
next
  case (Cons c cs)
  show ?case
  proof (cases "take (length pat) (c # cs) = pat")
    case True
    with Cons.prems have "b = []" and "a = drop (length pat) (c # cs)" by simp_all
    with True show ?thesis by (metis append_Nil append_take_drop_id)
  next
    case False
    with Cons.prems obtain b' where "splitAtFirst pat cs = Some (b', a)" and "b = c # b'"
      by (auto split: option.splits)
    with Cons.IH show ?thesis by simp
  qed
qed

lemma splitAtFirst_first:
  "\<exists>b r. splitAtFirst pat (pre @ pat @ a) = Some (b, r) \<and> length b \<le> length pre"
proof (induction pre)
  case Nil
  show ?case
  proof (cases "pat @ a")
    case Nil
    then show ?thesis by simp
  next
    case (Cons c cs)
    have "take (length pat) (pat @ a) = pat" by simp
    with Cons show ?thesis by simp
  qed
next
  case (Cons c pre)
  then show ?case by (cases "take (length pat) (c # pre @ pat @ a) = pat") auto
qed

lemma fencedMatch_sound:
  assumes "fencedMatch t = Some (m0, g)"
  shows "m0 = fenceOpen @ g @ fenceClose \<and> (\<exists>pre post. t = pre @ m0 @ post)"
proof -
  from assms obtain before rest after where
    1: "splitAtFirst fenceOpen t = Some (before, rest)"
    and 2: "splitAtFirst fenceClose rest = Some (g, after)"
    and 3: "m0 = fenceOpen @ g @ fenceClose"
    by (auto simp add: fencedMatch_def split: option.splits)
  from splitAtFirst_sound [OF 1] splitAtFirst_sound [OF 2] 3
  have "t = before @ m0 @ after" by simp
  with 3 show ?thesis by blast
qed

lemma fencedMatch_complete:
  assumes "t = pre @ fenceOpen @ body @ fenceClose @ post"
  shows "fencedMatch t \<noteq> None"
proof -
  let ?tail = "body @ fenceClose @ post"
  from splitAtFirst_first [of fenceOpen pre ?tail] assms
  obtain b r where 1: "splitAtFirst fenceOpen t = Some (b, r)" and le: "length b \<le> length pre"
    by auto
  from splitAtFirst_sound [OF 1] have t: "t = b @ fenceOpen @ r" .
  have "?tail = drop (length pre + length fenceOpen) t" using assms by simp
  also have "\<dots> = drop (length pre - length b) r"
    using le by (subst t) simp
  finally have "r = take (length pre - length b) r @ ?tail"
    by simp
  then have "r = (take (length pre - length b) r @ body) @ fenceClose @ post" by simp
  with splitAtFirst_first [of fenceClose "take (length pre - length b) r @ body" post]
  obtain g a where "splitAtFirst fenceClose r = Some (g, a)" by metis
  with 1 show ?thesis by (simp add: fencedMatch_def)
qed

lemma closingQuote_prefix: "closingQuote s = Some m \<Longrightarrow> \<exists>post. s = m @ post"
proof (induction s arbitrary: m)
  case Nil
  then show ?case by simp
next
  case (Cons c cs)
  show ?case
  proof (cases "c = dquote \<and> (case dropWhile isSpace cs of [] \<Rightarrow> False | d # ds \<Rightarrow> d = CHR '':'')")
    case True
    with Cons.prems have m: "m = c # takeWhile isSpace cs @ '':''" by simp
    from True obtain ds where "dropWhile isSpace cs = CHR '':'' # ds"
      by (auto split: list.splits)
    then have "cs = takeWhile isSpace cs @ CHR '':'' # ds"
      by (metis takeWhile_dropWhile_id)
    then have "c # cs = m @ ds" using m by simp
    then show ?thesis by blast
  next
    case False
    with Cons.prems obtain m' where "closingQuote cs = Some m'" and "m = c # m'"
      by (auto split: option.splits)
    with Cons.IH [of m'] show ?thesis by auto
  qed
qed

lemma bareAt_shape:
  assumes "bareAt s = Some m"
  shows "(\<exists>w1 w2 rest. m = ''['' @ w1 @ ''{'' @ w2 @ [dquote] @ rest \<and> (\<forall>c \<in> set (w1 @ w2). isSpace c))
         \<and> (\<exists>post. s = m @ post)"
proof -
  from assms obtain r r2 r3 q where
    s: "s = CHR ''['' # r" and
    r: "dropWhile isSpace r = CHR ''{'' # r2" and
    r2: "dropWhile isSpace r2 = dquote # r3" and
    q: "closingQuote r3 = Some q" and
    m: "m = CHR ''['' # takeWhile isSpace r @ CHR ''{'' # takeWhile isSpace r2 @ dquote # q"
    by (auto simp add: bareAt_def split: list.splits if_splits option.splits)
  from closingQuote_prefix [OF q] obtain post where q3: "r3 = q @ post" by auto
  have "r = takeWhile isSpace r @ CHR ''{'' # r2" using r by (metis takeWhile_dropWhile_id)
  moreover have "r2 = takeWhile isSpace r2 @ dquote # r3" using r2 by (metis takeWhile_dropWhile_id)
  ultimately have sp: "s = m @ post" using s m q3 by simp
  have "m = ''['' @ takeWhile isSpace r @ ''{'' @ takeWhile isSpace r2 @ [dquote] @ q" using m by simp
  moreover have "\<forall>c \<in> set (takeWhile isSpace r @ takeWhile isSpace r2). isSpace c"
    by (auto dest: set_takeWhileD)
  ultimately show ?thesis using sp by blast
qed

lemma bareMatch_shape:
  "bareMatch s = Some m \<Longrightarrow>
   (\<exists>w1 w2 rest. m = ''['' @ w1 @ ''{'' @ w2 @ [dquote] @ rest \<and> (\<forall>c \<in> set (w1 @ w2). isSpace c))
   \<and> (\<exists>pre post. s = pre @ m @ post)"
proof (induction s)
  case Nil
  then show ?case by simp
next
  case (Cons c cs)
  show ?case
  proof (cases "bareAt (c # cs)")
    case (Some m')
    with Cons.prems have "m' = m" by simp
    with bareAt_shape [OF Some] show ?thesis by (metis append_Nil)
  next
    case None
    with Cons.prems have "bareMatch cs = Some m" by simp
    from Cons.IH [OF this] show ?thesis by (metis append_Cons)
  qed
qed

lemma startsWith_bracket: "startsWith j ''['' \<longleftrightarrow> (\<exists>r. j = ''['' @ r)"
  by (cases j) (auto simp add: startsWith_def)

lemma endsWith_bracket: "endsWith j '']'' \<longleftrightarrow> (\<exists>r. j = r @ '']'')"
proof
  assume "endsWith j '']''"
  then have "1 \<le> length j" and "drop (length j - 1) j = '']''" by (simp_all add: endsWith_def)
  then have "j = take (length j - 1) j @ '']''" by (metis append_take_drop_id)
  then show "\<exists>r. j = r @ '']''" by blast
next
  assume "\<exists>r. j = r @ '']''"
  then show "endsWith j '']''" by (auto simp add: endsWith_def)
qed

lemma jsonTextOf_fenced:
  "fencedMatch t = Some (m0, g) \<Longrightarrow> jsonTextOf t = Some (appendBracket (if g \<noteq> [] then g else m0))"
  by (simp add: jsonTextOf_def)

lemma jsonTextOf_bare:
  "fencedMatch t = None \<Longrightarrow> jsonTextOf t = map_option appendBracket (bareMatch t)"
  by (cases "bareMatch t") (simp_all add: jsonTextOf_def)

text \<open>The sample responses, evaluated.\<close>

lemma fencedMatch_modelResponse:
  "fencedMatch modelResponse = Some (fenceOpen @ listingJson @ fenceClose, listingJson)"
  by (simp add: modelResponse_def fencedMatch_def fenceOpen_def fenceClose_def listingJson_def dquote_def)

text \<open>
  The sample array without its fence: the bare expression matches up to the colon after
  the first key, and that text with the bracket appended is not what the sample parser
  knows.
\<close>

lemma fencedMatch_listingJson: "fencedMatch listingJson = None"
  by (simp add: fencedMatch_def fenceOpen_def listingJson_def dquote_def)

lemma bareMatch_listingJson: "bareMatch listingJson = Some (''[{'' @ [dquote] @ ''beds'' @ [dquote] @ '':'')"
  by (simp add: listingJson_def bareAt_def dquote_def isSpace_def)

lemma fencedMatch_plain: "fencedMatch ''No listings found.'' = None"
  by (simp add: fencedMatch_def fenceOpen_def)

lemma bareMatch_plain: "bareMatch ''No listings found.'' = None"
  by (simp add: bareAt_def)

lemma extractListingsWithLLM_modelEnv:
  "extractListingsWithLLM modelEnv pageText seattle ''zillow''
   = ([ModelInvoke],
      Some \<lparr>count = 1, listings = [formatItem ''zillow'' ''OpenAI'' [(''beds'', JNum 3)]],
            note_field = Some ''Results extracted using Puppeteer and OpenAI processing'',
            error = None\<rparr>)"
  by (simp add: extractListingsWithLLM_def modelEnv_def failingEnv_def processLLMResponse_modelResponse)

lemma parseListingJson_bare:
  "parseListingJson ((''[{'' @ [dquote] @ ''beds'' @ [dquote] @ '':'') @ '']'') = None"
  by (simp add: parseListingJson_def listingJson_def dquote_def)

lemma jsonTextOf_nullResponse: "jsonTextOf nullResponse = Some ''[null]''"
  by (simp add: jsonTextOf_def appendBracket_def nullResponse_def fencedMatch_def fenceOpen_def
      fenceClose_def startsWith_def endsWith_def)

lemma appendBracket_bare:
  "appendBracket (''[{'' @ [dquote] @ ''beds'' @ [dquote] @ '':'')
   = (''[{'' @ [dquote] @ ''beds'' @ [dquote] @ '':'') @ '']''"
  by (simp add: appendBracket_def startsWith_def endsWith_def dquote_def)

lemma fencedMatch_truncated: "fencedMatch truncatedResponse = None"
  by (simp add: fencedMatch_def fenceOpen_def truncatedResponse_def dquote_def)

lemma bareMatch_truncated: "bareMatch truncatedResponse = Some truncatedResponse"
  by (simp add: truncatedResponse_def bareAt_def dquote_def isSpace_def)

lemma parseListingJson_truncated: "parseListingJson (truncatedResponse @ '']'') = None"
  by (simp add: parseListingJson_def listingJson_def truncatedResponse_def dquote_def)

lemma truncated_shape:
  "(\<exists>r. truncatedResponse = ''['' @ r) \<and> (\<forall>r. truncatedResponse \<noteq> r @ '']'')"
proof (intro conjI allI notI)
  show "\<exists>r. truncatedResponse = ''['' @ r" by (simp add: truncatedResponse_def)
next
  fix r assume "truncatedResponse = r @ '']''"
  then have "last truncatedResponse = last (r @ '']'')" by (rule arg_cong)
  then show False by (simp add: truncatedResponse_def)
qed

lemma listingJson_shape: "\<exists>r. listingJson = r @ '']''"
  unfolding listingJson_def
  by (rule exI [of _ "''[{'' @ [dquote] @ ''beds'' @ [dquote] @ '':3}''"]) simp

text \<open>
  C9 as stated fails for the source tag: the pipeline passes \<open>OpenAI\<close> as the name of the
  model, and the tag is \<open>zillow (OpenAI extraction)\<close>, not \<open>zillow (model extraction)\<close>.
  The input is a page whose model response holds one listing in a fenced block.
\<close>

theorem model_extraction_tag:
  "fallbackToPuppeteerWebBaseLoader modelEnv seattle
     = ([LoaderLoad, ModelInvoke],
        \<lparr>count = 1, listings = [formatItem ''zillow'' ''OpenAI'' [(''beds'', JNum 3)]],
         note_field = Some ''Results extracted using Puppeteer and OpenAI processing'',
         error = None\<rparr>)
   \<and> source (formatItem ''zillow'' ''OpenAI'' [(''beds'', JNum 3)]) = ''zillow (OpenAI extraction)''
   \<and> source (formatItem ''zillow'' ''OpenAI'' [(''beds'', JNum 3)]) \<noteq> ''zillow (model extraction)''"
proof -
  have "fallbackToPuppeteerWebBaseLoader modelEnv seattle
     = ([LoaderLoad, ModelInvoke],
        \<lparr>count = 1, listings = [formatItem ''zillow'' ''OpenAI'' [(''beds'', JNum 3)]],
         note_field = Some ''Results extracted using Puppeteer and OpenAI processing'',
         error = None\<rparr>)"
    by (simp add: fallbackToPuppeteerWebBaseLoader_def modelEnv_def failingEnv_def seattle_def
        extractListingsWithLLM_def processLLMResponse_modelResponse)
  then show ?thesis by (simp add: formatItem_def str_or_def)
qed

text \<open>
  C9, amended. The parser first looks for a fenced JSON block in the response and takes
  its content (the whole block when the content is empty); when there is none it looks
  for a bare substring that looks like a JSON array: an opening bracket, an opening
  brace and a double quote, with only white space between them. A closing bracket is
  appended before parsing when the text taken starts with an opening bracket and does
  not end with a closing one. When neither is found, when parsing fails or when an
  element is null the parser returns null, and the pipeline goes on to pattern
  extraction. When parsing succeeds the parser returns one listing per element, with
  \<open>bedrooms\<close> from the first truthy of \<open>bedrooms\<close>, \<open>beds\<close>, \<open>bathrooms\<close> from
  \<open>bathrooms\<close>, \<open>baths\<close>, \<open>squareFeet\<close> from \<open>squareFeet\<close>, \<open>sqft\<close>, \<open>area\<close>, \<open>url\<close>
  from \<open>url\<close>, \<open>link\<close>, and with the source tag made of the source (or
  \<open>real-estate-site\<close> when it is empty) and the model's name, which is \<open>OpenAI\<close> in the
  pipeline: \<open>zillow (OpenAI extraction)\<close>; the pipeline returns that result when it has
  at least one listing.
\<close>

theorem processLLMResponse_behaviour:
  "(fencedMatch t = Some (m0, g) \<longrightarrow>
      m0 = fenceOpen @ g @ fenceClose \<and> (\<exists>pre post. t = pre @ m0 @ post)
      \<and> jsonTextOf t = Some (appendBracket (if g \<noteq> [] then g else m0)))
   \<and> (t = pre @ fenceOpen @ body @ fenceClose @ post \<longrightarrow> fencedMatch t \<noteq> None)
   \<and> (fencedMatch t = None \<longrightarrow> jsonTextOf t = map_option appendBracket (bareMatch t))
   \<and> (bareMatch t = Some b \<longrightarrow>
        (\<exists>w1 w2 rest. b = ''['' @ w1 @ ''{'' @ w2 @ [dquote] @ rest \<and> (\<forall>c \<in> set (w1 @ w2). isSpace c))
        \<and> (\<exists>pre post. t = pre @ b @ post))
   \<and> ((\<exists>r. j = ''['' @ r) \<and> (\<forall>r. j \<noteq> r @ '']'') \<longrightarrow> appendBracket j = j @ '']'')
   \<and> ((\<forall>r. j \<noteq> ''['' @ r) \<or> (\<exists>r. j = r @ '']'') \<longrightarrow> appendBracket j = j)
   \<and> (jsonTextOf t = None \<longrightarrow> processLLMResponse parse t src modelUsed = None)
   \<and> (jsonTextOf t = Some j \<and> parse j = None \<longrightarrow> processLLMResponse parse t src modelUsed = None)
   \<and> (jsonTextOf t = Some j \<and> parse j = Some (PArray (map Some its)) \<longrightarrow>
        processLLMResponse parse t src modelUsed
        = Some \<lparr>count = length its, listings = map (formatItem src modelUsed) its,
                note_field = Some (''Results extracted using Puppeteer and '' @ modelUsed @ '' processing''),
                error = None\<rparr>)
   \<and> (jsonTextOf t = Some j \<and> parse j = Some (PArray xs) \<and> None \<in> set xs \<longrightarrow>
        processLLMResponse parse t src modelUsed = None)
   \<and> bedrooms (details (formatItem src modelUsed it))
       = (if truthy (field it ''bedrooms'') then field it ''bedrooms''
          else if truthy (field it ''beds'') then field it ''beds'' else JStr ''Not specified'')
   \<and> bathrooms (details (formatItem src modelUsed it))
       = (if truthy (field it ''bathrooms'') then field it ''bathrooms''
          else if truthy (field it ''baths'') then field it ''baths'' else JStr ''Not specified'')
   \<and> squareFeet (details (formatItem src modelUsed it))
       = (if truthy (field it ''squareFeet'') then field it ''squareFeet''
          else if truthy (field it ''sqft'') then field it ''sqft''
          else if truthy (field it ''area'') then field it ''area'' else JStr ''Not specified'')
   \<and> url (formatItem src modelUsed it)
       = (if truthy (field it ''url'') then field it ''url''
          else if truthy (field it ''link'') then field it ''link'' else JStr [])
   \<and> source (formatItem src modelUsed it)
       = (if src = [] then ''real-estate-site'' else src) @ '' ('' @ modelUsed @ '' extraction)''
   \<and> (extractListingsWithLLM e content c src = (tr, Some r) \<longrightarrow>
        (\<forall>l \<in> set (listings r).
           source l = (if src = [] then ''real-estate-site'' else src) @ '' (OpenAI extraction)''))
   \<and> (loaderLoad e c = Inr (d # ds) \<and> extractListingsWithLLM e d c (crit_source c) = (tr, Some r)
        \<and> 0 < count r \<longrightarrow>
        fallbackToPuppeteerWebBaseLoader e c = (LoaderLoad # tr, r))
   \<and> (loaderLoad e c = Inr (d # ds) \<and> extractListingsWithLLM e d c (crit_source c) = (tr, None) \<longrightarrow>
        fallbackToPuppeteerWebBaseLoader e c
        = (LoaderLoad # tr, processDocumentWithPatterns e d (crit_source c)))"
proof (intro conjI impI)
  assume f: "fencedMatch t = Some (m0, g)"
  from fencedMatch_sound [OF f] show "m0 = fenceOpen @ g @ fenceClose" by simp
  from fencedMatch_sound [OF f] show "\<exists>pre post. t = pre @ m0 @ post" by blast
  from f show "jsonTextOf t = Some (appendBracket (if g \<noteq> [] then g else m0))"
    by (rule jsonTextOf_fenced)
next
  assume "t = pre @ fenceOpen @ body @ fenceClose @ post"
  then show "fencedMatch t \<noteq> None" by (rule fencedMatch_complete)
next
  assume "fencedMatch t = None"
  then show "jsonTextOf t = map_option appendBracket (bareMatch t)" by (rule jsonTextOf_bare)
next
  assume b: "bareMatch t = Some b"
  from bareMatch_shape [OF b]
  show "\<exists>w1 w2 rest. b = ''['' @ w1 @ ''{'' @ w2 @ [dquote] @ rest \<and> (\<forall>c \<in> set (w1 @ w2). isSpace c)"
    by blast
  from bareMatch_shape [OF b] show "\<exists>pre post. t = pre @ b @ post" by blast
next
  assume "(\<exists>r. j = ''['' @ r) \<and> (\<forall>r. j \<noteq> r @ '']'')"
  then have "startsWith j ''[''" and "\<not> endsWith j '']''"
    by (simp_all only: startsWith_bracket endsWith_bracket) blast+
  then show "appendBracket j = j @ '']''" by (simp add: appendBracket_def)
next
  assume "(\<forall>r. j \<noteq> ''['' @ r) \<or> (\<exists>r. j = r @ '']'')"
  then have "\<not> startsWith j ''['' \<or> endsWith j '']''"
    by (simp only: startsWith_bracket endsWith_bracket) blast
  then show "appendBracket j = j" by (auto simp add: appendBracket_def)
next
  assume "jsonTextOf t = None"
  then show "processLLMResponse parse t src modelUsed = None" by (simp add: processLLMResponse_def)
next
  assume "jsonTextOf t = Some j \<and> parse j = None"
  then show "processLLMResponse parse t src modelUsed = None" by (simp add: processLLMResponse_def)
next
  assume "jsonTextOf t = Some j \<and> parse j = Some (PArray (map Some its))"
  moreover have "those (map Some its) = Some its" by (induction its) simp_all
  ultimately show "processLLMResponse parse t src modelUsed
        = Some \<lparr>count = length its, listings = map (formatItem src modelUsed) its,
                note_field = Some (''Results extracted using Puppeteer and '' @ modelUsed @ '' processing''),
                error = None\<rparr>"
    by (simp add: processLLMResponse_def)
next
  assume a: "jsonTextOf t = Some j \<and> parse j = Some (PArray xs) \<and> None \<in> set xs"
  have "None \<in> set xs \<Longrightarrow> those xs = None"
    by (induction xs) (auto split: option.splits)
  with a show "processLLMResponse parse t src modelUsed = None" by (simp add: processLLMResponse_def)
next
  show "bedrooms (details (formatItem src modelUsed it))
       = (if truthy (field it ''bedrooms'') then field it ''bedrooms''
          else if truthy (field it ''beds'') then field it ''beds'' else JStr ''Not specified'')"
    by (simp add: formatItem_def js_or_def)
  show "bathrooms (details (formatItem src modelUsed it))
       = (if truthy (field it ''bathrooms'') then field it ''bathrooms''
          else if truthy (field it ''baths'') then field it ''baths'' else JStr ''Not specified'')"
    by (simp add: formatItem_def js_or_def)
  show "squareFeet (details (formatItem src modelUsed it))
       = (if truthy (field it ''squareFeet'') then field it ''squareFeet''
          else if truthy (field it ''sqft'') then field it ''sqft''
          else if truthy (field it ''area'') then field it ''area'' else JStr ''Not specified'')"
    by (simp add: formatItem_def js_or_def)
  show "url (formatItem src modelUsed it)
       = (if truthy (field it ''url'') then field it ''url''
          else if truthy (field it ''link'') then field it ''link'' else JStr [])"
    by (simp add: formatItem_def js_or_def)
  show "source (formatItem src modelUsed it)
       = (if src = [] then ''real-estate-site'' else src) @ '' ('' @ modelUsed @ '' extraction)''"
    by (simp add: formatItem_def str_or_def)
next
  assume "extractListingsWithLLM e content c src = (tr, Some r)"
  then show "\<forall>l \<in> set (listings r).
           source l = (if src = [] then ''real-estate-site'' else src) @ '' (OpenAI extraction)''"
    by (auto simp add: extractListingsWithLLM_def processLLMResponse_def formatItem_def str_or_def Let_def
        split: sum.splits option.splits)
next
  assume "loaderLoad e c = Inr (d # ds) \<and> extractListingsWithLLM e d c (crit_source c) = (tr, Some r)
        \<and> 0 < count r"
  then show "fallbackToPuppeteerWebBaseLoader e c = (LoaderLoad # tr, r)"
    by (simp add: fallbackToPuppeteerWebBaseLoader_def)
next
  assume "loaderLoad e c = Inr (d # ds) \<and> extractListingsWithLLM e d c (crit_source c) = (tr, None)"
  then show "fallbackToPuppeteerWebBaseLoader e c
        = (LoaderLoad # tr, processDocumentWithPatterns e d (crit_source c))"
    by (simp add: fallbackToPuppeteerWebBaseLoader_def)
qed

theorem processLLMResponse_behaviour_witness:
  "fencedMatch modelResponse = Some (fenceOpen @ listingJson @ fenceClose, listingJson)
   \<and> (\<exists>pre post. modelResponse = pre @ (fenceOpen @ listingJson @ fenceClose) @ post)
   \<and> appendBracket listingJson = listingJson
   \<and> jsonTextOf modelResponse = Some listingJson
   \<and> parseListingJson listingJson = Some (PArray (map Some [[(''beds'', JNum 3)]]))
   \<and> processLLMResponse parseListingJson modelResponse ''zillow'' ''OpenAI''
       = Some \<lparr>count = 1, listings = [formatItem ''zillow'' ''OpenAI'' [(''beds'', JNum 3)]],
               note_field = Some ''Results extracted using Puppeteer and OpenAI processing'',
               error = None\<rparr>
   \<and> bedrooms (details (formatItem ''zillow'' ''OpenAI'' [(''beds'', JNum 3)])) = JNum 3
   \<and> fencedMatch truncatedResponse = None
   \<and> bareMatch truncatedResponse = Some truncatedResponse
   \<and> appendBracket truncatedResponse = truncatedResponse @ '']''
   \<and> jsonTextOf truncatedResponse = Some (truncatedResponse @ '']'')
   \<and> parseListingJson (truncatedResponse @ '']'') = None
   \<and> processLLMResponse parseListingJson truncatedResponse ''zillow'' ''OpenAI'' = None
   \<and> jsonTextOf ''No listings found.'' = None
   \<and> processLLMResponse parseListingJson ''No listings found.'' ''zillow'' ''OpenAI'' = None
   \<and> extractListingsWithLLM modelEnv pageText seattle ''zillow''
       = ([ModelInvoke],
          Some \<lparr>count = 1, listings = [formatItem ''zillow'' ''OpenAI'' [(''beds'', JNum 3)]],
                note_field = Some ''Results extracted using Puppeteer and OpenAI processing'',
                error = None\<rparr>)
   \<and> source (formatItem ''zillow'' ''OpenAI'' [(''beds'', JNum 3)]) = ''zillow (OpenAI extraction)''
   \<and> modelResponse = (''Here are the listings:'' @ [CHR 0x0A]) @ fenceOpen @ listingJson @ fenceClose @ []
   \<and> fencedMatch modelResponse \<noteq> None
   \<and> jsonTextOf nullResponse = Some ''[null]''
   \<and> parseNullArray ''[null]'' = Some (PArray [None])
   \<and> processLLMResponse parseNullArray nullResponse ''zillow'' ''OpenAI'' = None
   \<and> fallbackToPuppeteerWebBaseLoader modelEnv seattle
       = ([LoaderLoad, ModelInvoke],
          \<lparr>count = 1, listings = [formatItem ''zillow'' ''OpenAI'' [(''beds'', JNum 3)]],
           note_field = Some ''Results extracted using Puppeteer and OpenAI processing'',
           error = None\<rparr>)
   \<and> extractListingsWithLLM patternPageEnv pageText seattle ''zillow'' = ([ModelInvoke], None)
   \<and> fallbackToPuppeteerWebBaseLoader patternPageEnv seattle
       = ([LoaderLoad, ModelInvoke], processDocumentWithPatterns patternPageEnv pageText ''zillow'')"
proof -
  note fenced = processLLMResponse_behaviour [THEN conjunct1]
  note complete = processLLMResponse_behaviour [THEN conjunct2, THEN conjunct1]
  note bare = processLLMResponse_behaviour [THEN conjunct2, THEN conjunct2, THEN conjunct1]
  note yes = processLLMResponse_behaviour [THEN conjunct2, THEN conjunct2, THEN conjunct2, THEN conjunct2, THEN conjunct1]
  note no = processLLMResponse_behaviour [THEN conjunct2, THEN conjunct2, THEN conjunct2, THEN conjunct2, THEN conjunct2, THEN conjunct1]
  note nomatch = processLLMResponse_behaviour [THEN conjunct2, THEN conjunct2, THEN conjunct2, THEN conjunct2, THEN conjunct2, THEN conjunct2, THEN conjunct1]
  note noparse = processLLMResponse_behaviour [THEN conjunct2, THEN conjunct2, THEN conjunct2, THEN conjunct2, THEN conjunct2, THEN conjunct2, THEN conjunct2, THEN conjunct1]
  note parsed = processLLMResponse_behaviour [THEN conjunct2, THEN conjunct2, THEN conjunct2, THEN conjunct2, THEN conjunct2, THEN conjunct2, THEN conjunct2, THEN conjunct2, THEN conjunct1]
  note nullel = processLLMResponse_behaviour [THEN conjunct2, THEN conjunct2, THEN conjunct2, THEN conjunct2, THEN conjunct2, THEN conjunct2, THEN conjunct2, THEN conjunct2, THEN conjunct2, THEN conjunct1]
  note beds = processLLMResponse_behaviour [THEN conjunct2, THEN conjunct2, THEN conjunct2, THEN conjunct2, THEN conjunct2, THEN conjunct2, THEN conjunct2, THEN conjunct2, THEN conjunct2, THEN conjunct2, THEN conjunct1]
  note tag = processLLMResponse_behaviour [THEN conjunct2, THEN conjunct2, THEN conjunct2, THEN conjunct2, THEN conjunct2, THEN conjunct2, THEN conjunct2, THEN conjunct2, THEN conjunct2, THEN conjunct2, THEN conjunct2, THEN conjunct2, THEN conjunct2, THEN conjunct2, THEN conjunct1]
  note used = processLLMResponse_behaviour [THEN conjunct2, THEN conjunct2, THEN conjunct2, THEN conjunct2, THEN conjunct2, THEN conjunct2, THEN conjunct2, THEN conjunct2, THEN conjunct2, THEN conjunct2, THEN conjunct2, THEN conjunct2, THEN conjunct2, THEN conjunct2, THEN conjunct2, THEN conjunct2, THEN conjunct1]
  note fallthrough = processLLMResponse_behaviour [THEN conjunct2, THEN conjunct2, THEN conjunct2, THEN conjunct2, THEN conjunct2, THEN conjunct2, THEN conjunct2, THEN conjunct2, THEN conjunct2, THEN conjunct2, THEN conjunct2, THEN conjunct2, THEN conjunct2, THEN conjunct2, THEN conjunct2, THEN conjunct2, THEN conjunct2]
  have pj: "parseListingJson listingJson = Some (PArray (map Some [[(''beds'', JNum 3)]]))"
    by (simp add: parseListingJson_def)
  have pn: "parseNullArray ''[null]'' = Some (PArray [None])" by (simp add: parseNullArray_def)
  have fld: "field [(''beds'', JNum 3)] ''bedrooms'' = JUndef" "field [(''beds'', JNum 3)] ''beds'' = JNum 3"
    by (simp_all add: field_def)
  have lne: "listingJson \<noteq> []" by (simp add: listingJson_def)
  have 0: "appendBracket listingJson = listingJson"
    using no [of listingJson] listingJson_shape by simp
  have 7: "\<exists>pre post. modelResponse = pre @ (fenceOpen @ listingJson @ fenceClose) @ post"
    using fenced [of modelResponse "fenceOpen @ listingJson @ fenceClose" listingJson]
      fencedMatch_modelResponse by simp
  have 1: "jsonTextOf modelResponse = Some listingJson"
    using fenced [of modelResponse "fenceOpen @ listingJson @ fenceClose" listingJson]
      fencedMatch_modelResponse lne 0 by simp
  have ab: "appendBracket truncatedResponse = truncatedResponse @ '']''"
    using yes [of truncatedResponse] truncated_shape by simp
  have 2: "jsonTextOf truncatedResponse = Some (truncatedResponse @ '']'')"
    using bare [of truncatedResponse] fencedMatch_truncated bareMatch_truncated ab by simp
  have 3: "jsonTextOf ''No listings found.'' = None"
    using bare [of "''No listings found.''"] fencedMatch_plain bareMatch_plain by simp
  have 4: "processLLMResponse parseListingJson truncatedResponse ''zillow'' ''OpenAI'' = None"
    using noparse [of truncatedResponse "truncatedResponse @ '']''" parseListingJson "''zillow''" "''OpenAI''"]
      2 parseListingJson_truncated by simp
  have 5: "processLLMResponse parseListingJson ''No listings found.'' ''zillow'' ''OpenAI'' = None"
    using nomatch [of "''No listings found.''" parseListingJson "''zillow''" "''OpenAI''"] 3 by simp
  have 6: "processLLMResponse parseListingJson modelResponse ''zillow'' ''OpenAI''
       = Some \<lparr>count = 1, listings = [formatItem ''zillow'' ''OpenAI'' [(''beds'', JNum 3)]],
               note_field = Some ''Results extracted using Puppeteer and OpenAI processing'',
               error = None\<rparr>"
    using parsed [of modelResponse listingJson parseListingJson "[[(''beds'', JNum 3)]]" "''zillow''" "''OpenAI''"]
      1 pj by simp
  have 8: "bedrooms (details (formatItem ''zillow'' ''OpenAI'' [(''beds'', JNum 3)])) = JNum 3"
    using beds [of "''zillow''" "''OpenAI''" "[(''beds'', JNum 3)]"] fld by simp
  have 9: "source (formatItem ''zillow'' ''OpenAI'' [(''beds'', JNum 3)]) = ''zillow (OpenAI extraction)''"
    using tag [of "''zillow''" "''OpenAI''" "[(''beds'', JNum 3)]"] by simp
  have 10: "processLLMResponse parseNullArray nullResponse ''zillow'' ''OpenAI'' = None"
    using nullel [of nullResponse "''[null]''" parseNullArray "[None]" "''zillow''" "''OpenAI''"]
      jsonTextOf_nullResponse pn by simp
  have 11: "modelResponse = (''Here are the listings:'' @ [CHR 0x0A]) @ fenceOpen @ listingJson @ fenceClose @ []"
    by (simp add: modelResponse_def)
  have 12: "fencedMatch modelResponse \<noteq> None"
    using complete [of modelResponse "''Here are the listings:'' @ [CHR 0x0A]" listingJson "[]"] 11
    by blast
  have src: "crit_source seattle = ''zillow''" by (simp add: seattle_def)
  have lm: "loaderLoad modelEnv seattle = Inr [pageText]" by (simp add: modelEnv_def)
  have lp: "loaderLoad patternPageEnv seattle = Inr [pageText]" by (simp add: patternPageEnv_def)
  have xp: "extractListingsWithLLM patternPageEnv pageText seattle ''zillow'' = ([ModelInvoke], None)"
    by (simp add: extractListingsWithLLM_def patternPageEnv_def threeFiveEnv_def patternEnv_def
        failingEnv_def)
  have 13: "fallbackToPuppeteerWebBaseLoader modelEnv seattle
       = ([LoaderLoad, ModelInvoke],
          \<lparr>count = 1, listings = [formatItem ''zillow'' ''OpenAI'' [(''beds'', JNum 3)]],
           note_field = Some ''Results extracted using Puppeteer and OpenAI processing'',
           error = None\<rparr>)"
    using used [of modelEnv seattle pageText "[]" "[ModelInvoke]"
        "\<lparr>count = 1, listings = [formatItem ''zillow'' ''OpenAI'' [(''beds'', JNum 3)]],
          note_field = Some ''Results extracted using Puppeteer and OpenAI processing'',
          error = None\<rparr>"]
      lm extractListingsWithLLM_modelEnv
    by (simp add: src)
  have 14: "fallbackToPuppeteerWebBaseLoader patternPageEnv seattle
       = ([LoaderLoad, ModelInvoke], processDocumentWithPatterns patternPageEnv pageText ''zillow'')"
    using fallthrough [of patternPageEnv seattle pageText "[]" "[ModelInvoke]"] lp xp
    by (simp add: src)
  show ?thesis
    by (intro conjI)
       (rule fencedMatch_modelResponse 0 1 2 3 4 5 6 7 8 9 10 11 12 13 14 xp ab pj pn fencedMatch_truncated
          bareMatch_truncated parseListingJson_truncated extractListingsWithLLM_modelEnv
          jsonTextOf_nullResponse)+
qed

end
